theory Spec2Isabelle
  imports Complex_Main "HOL-Library.Sublist"
begin

section \<open>Data model (red\_team/src/core/framework.py)\<close>

text \<open>
  The enumeration \<^verbatim>\<open>DefenseType\<close>, in declaration order. \<^verbatim>\<open>for d in DefenseType\<close>
  visits the members in this order, and \<^verbatim>\<open>.value\<close> is the string of each member.
\<close>

datatype DefenseType =
    INPUT_VALIDATION | TYPE_CHECKING | BOUNDS_ENFORCEMENT | SANITIZATION
  | STATE_PROTECTION | RATE_LIMITING | CRYPTOGRAPHY | LOGIC_HARDENING | ANOMALY_DETECTION

definition DefenseType_members :: "DefenseType list" where
  "DefenseType_members =
     [INPUT_VALIDATION, TYPE_CHECKING, BOUNDS_ENFORCEMENT, SANITIZATION,
      STATE_PROTECTION, RATE_LIMITING, CRYPTOGRAPHY, LOGIC_HARDENING, ANOMALY_DETECTION]"

fun DefenseType_value :: "DefenseType \<Rightarrow> string" where
  "DefenseType_value INPUT_VALIDATION = ''validate_input''"
| "DefenseType_value TYPE_CHECKING = ''check_type''"
| "DefenseType_value BOUNDS_ENFORCEMENT = ''enforce_bounds''"
| "DefenseType_value SANITIZATION = ''sanitize''"
| "DefenseType_value STATE_PROTECTION = ''protect_state''"
| "DefenseType_value RATE_LIMITING = ''rate_limit''"
| "DefenseType_value CRYPTOGRAPHY = ''encrypt''"
| "DefenseType_value LOGIC_HARDENING = ''harden_logic''"
| "DefenseType_value ANOMALY_DETECTION = ''detect_anomaly''"

datatype SeverityLevel = CRITICAL | HIGH | MEDIUM | LOW | INFO

datatype EvolutionPhase = INITIALIZATION | TESTING | ANALYSIS | ADAPTATION | VERIFICATION

text \<open>
  Exceptions are values. \<^verbatim>\<open>PyException msg\<close> is an instance of \<^verbatim>\<open>Exception\<close> whose
  \<^verbatim>\<open>str\<close> is \<^verbatim>\<open>msg\<close>; \<^verbatim>\<open>KeyError k\<close> is the failed dictionary lookup of key \<^verbatim>\<open>k\<close>;
  \<^verbatim>\<open>ZeroDivisionError\<close> is a division by zero.
\<close>

datatype py_exception = PyException string | KeyError string | ZeroDivisionError

text \<open>
  The dataclass \<^verbatim>\<open>DefenseConfig\<close>. Python's unbounded \<^verbatim>\<open>int\<close> is \<^typ>\<open>int\<close>; the
  float \<^verbatim>\<open>threshold\<close> and the float ratios below are exact rationals.
\<close>

record DefenseConfig =
  defense_type :: DefenseType
  active :: bool
  strength :: int
  threshold :: rat
  times_triggered :: int
  successful_blocks :: int
  false_positives :: int

text \<open>The constructor call \<^verbatim>\<open>DefenseConfig(t, active=a, strength=s)\<close> with the other defaults.\<close>

definition new_DefenseConfig :: "DefenseType \<Rightarrow> bool \<Rightarrow> int \<Rightarrow> DefenseConfig" where
  "new_DefenseConfig t a s =
     \<lparr>defense_type = t, active = a, strength = s, threshold = 1 / 2,
      times_triggered = 0, successful_blocks = 0, false_positives = 0\<rparr>"

definition effectiveness :: "DefenseConfig \<Rightarrow> rat" where
  "effectiveness c =
     (if times_triggered c = 0 then 0
      else of_int (successful_blocks c) / of_int (times_triggered c))"

text \<open>\<^verbatim>\<open>self.strength = min(10, self.strength + amount)\<close>\<close>

definition strengthen :: "DefenseConfig \<Rightarrow> int \<Rightarrow> DefenseConfig" where
  "strengthen c amount = c\<lparr>strength := min 10 (strength c + amount)\<rparr>"

definition trigger :: "DefenseConfig \<Rightarrow> bool \<Rightarrow> DefenseConfig" where
  "trigger c successful =
     (let c1 = c\<lparr>times_triggered := times_triggered c + 1\<rparr>
      in if successful then c1\<lparr>successful_blocks := successful_blocks c1 + 1\<rparr>
         else c1\<lparr>false_positives := false_positives c1 + 1\<rparr>)"

text \<open>A sequence of \<^verbatim>\<open>strengthen\<close> calls on one configuration, in order.\<close>

fun strengthen_all :: "DefenseConfig \<Rightarrow> int list \<Rightarrow> DefenseConfig" where
  "strengthen_all c [] = c"
| "strengthen_all c (a # as) = strengthen_all (strengthen c a) as"

section \<open>Payload values\<close>

text \<open>
  A payload is any Python value (\<^verbatim>\<open>Any\<close>). The values covered here: \<^verbatim>\<open>None\<close>, a
  \<^verbatim>\<open>str\<close> (of ASCII characters), an \<^verbatim>\<open>int\<close>, a list, a tuple, a dict with string keys
  (in insertion order), and an instance of a user-defined class, which has a
  \<^verbatim>\<open>__dict__\<close> and is given by what its \<^verbatim>\<open>__str__\<close> and \<^verbatim>\<open>__repr__\<close> do: return a string, or
  raise an exception.
\<close>

datatype pyval =
    PNone
  | PStr string
  | PInt int
  | PList "pyval list"
  | PTuple "pyval list"
  | PDict "(string \<times> pyval) list"
  | PObject "py_exception + string" "py_exception + string"

definition squote :: char where "squote = CHR 0x27"
definition dquote :: char where "dquote = CHR 0x22"
definition backslash :: char where "backslash = CHR 0x5C"

fun str_of_nat :: "nat \<Rightarrow> string" where
  "str_of_nat n =
     (if n < 10 then [char_of (48 + n)]
      else str_of_nat (n div 10) @ [char_of (48 + n mod 10)])"

definition str_of_int :: "int \<Rightarrow> string" where
  "str_of_int i = (if i < 0 then CHR ''-'' # str_of_nat (nat (- i)) else str_of_nat (nat i))"

definition hex_digit :: "nat \<Rightarrow> char" where
  "hex_digit n = (if n < 10 then char_of (48 + n) else char_of (87 + n))"

text \<open>\<^verbatim>\<open>repr\<close> of a \<^verbatim>\<open>str\<close>: the quote is \<^verbatim>\<open>"\<close> when the string has a \<^verbatim>\<open>'\<close> and no \<^verbatim>\<open>"\<close>.\<close>

definition repr_char :: "char \<Rightarrow> char \<Rightarrow> string" where
  "repr_char q c =
     (let n = (of_char c :: nat) in
      if c = q \<or> c = backslash then [backslash, c]
      else if n = 9 then [backslash, CHR ''t'']
      else if n = 10 then [backslash, CHR ''n'']
      else if n = 13 then [backslash, CHR ''r'']
      else if n < 32 \<or> n = 127 then [backslash, CHR ''x'', hex_digit (n div 16), hex_digit (n mod 16)]
      else [c])"

definition repr_str :: "string \<Rightarrow> string" where
  "repr_str s =
     (let q = (if squote \<in> set s \<and> dquote \<notin> set s then dquote else squote)
      in q # concat (map (repr_char q) s) @ [q])"

text \<open>\<^verbatim>\<open>', '.join(parts)\<close>\<close>

fun join_comma :: "string list \<Rightarrow> string" where
  "join_comma [] = []"
| "join_comma [x] = x"
| "join_comma (x # y # ys) = x @ '', '' @ join_comma (y # ys)"

fun py_repr :: "pyval \<Rightarrow> py_exception + string"
  and py_repr_list :: "pyval list \<Rightarrow> py_exception + string list"
  and py_repr_items :: "(string \<times> pyval) list \<Rightarrow> py_exception + string list" where
  "py_repr PNone = Inr ''None''"
| "py_repr (PStr s) = Inr (repr_str s)"
| "py_repr (PInt i) = Inr (str_of_int i)"
| "py_repr (PList xs) =
     (case py_repr_list xs of Inl e \<Rightarrow> Inl e | Inr ps \<Rightarrow> Inr (''['' @ join_comma ps @ '']''))"
| "py_repr (PTuple xs) =
     (case py_repr_list xs of Inl e \<Rightarrow> Inl e
      | Inr ps \<Rightarrow> Inr (''('' @ join_comma ps @ (if length ps = 1 then '','' else []) @ '')''))"
| "py_repr (PDict kvs) =
     (case py_repr_items kvs of Inl e \<Rightarrow> Inl e | Inr ps \<Rightarrow> Inr (''{'' @ join_comma ps @ ''}''))"
| "py_repr (PObject s r) = r"
| "py_repr_list [] = Inr []"
| "py_repr_list (x # xs) =
     (case py_repr x of Inl e \<Rightarrow> Inl e
      | Inr p \<Rightarrow> (case py_repr_list xs of Inl e \<Rightarrow> Inl e | Inr ps \<Rightarrow> Inr (p # ps)))"
| "py_repr_items [] = Inr []"
| "py_repr_items (kv # kvs) =
     (case py_repr (snd kv) of Inl e \<Rightarrow> Inl e
      | Inr p \<Rightarrow> (case py_repr_items kvs of Inl e \<Rightarrow> Inl e
                  | Inr ps \<Rightarrow> Inr ((repr_str (fst kv) @ '': '' @ p) # ps)))"

text \<open>\<^verbatim>\<open>str(value)\<close>: the string itself for a \<^verbatim>\<open>str\<close>, \<^verbatim>\<open>__str__\<close> for an object, else the \<^verbatim>\<open>repr\<close>.\<close>

definition py_str :: "pyval \<Rightarrow> py_exception + string" where
  "py_str v = (case v of PStr s \<Rightarrow> Inr s | PObject s r \<Rightarrow> s | _ \<Rightarrow> py_repr v)"

text \<open>\<^verbatim>\<open>str(e)\<close> of a caught exception.\<close>

fun str_of_exception :: "py_exception \<Rightarrow> string" where
  "str_of_exception (PyException msg) = msg"
| "str_of_exception (KeyError k) = repr_str k"
| "str_of_exception ZeroDivisionError = ''division by zero''"

text \<open>\<^verbatim>\<open>s.upper()\<close> on ASCII.\<close>

definition upper_char :: "char \<Rightarrow> char" where
  "upper_char c = (let n = (of_char c :: nat) in if 97 \<le> n \<and> n \<le> 122 then char_of (n - 32) else c)"

definition upper :: "string \<Rightarrow> string" where
  "upper s = map upper_char s"

text \<open>\<^verbatim>\<open>isinstance\<close> tests and \<^verbatim>\<open>type(value).__name__\<close>.\<close>

fun is_str :: "pyval \<Rightarrow> bool" where
  "is_str (PStr s) = True"
| "is_str v = False"

fun is_str_int_float :: "pyval \<Rightarrow> bool" where
  "is_str_int_float (PStr s) = True"
| "is_str_int_float (PInt i) = True"
| "is_str_int_float v = False"

fun is_list_dict_tuple_set :: "pyval \<Rightarrow> bool" where
  "is_list_dict_tuple_set (PList xs) = True"
| "is_list_dict_tuple_set (PDict kvs) = True"
| "is_list_dict_tuple_set (PTuple xs) = True"
| "is_list_dict_tuple_set v = False"

fun is_list_dict :: "pyval \<Rightarrow> bool" where
  "is_list_dict (PList xs) = True"
| "is_list_dict (PDict kvs) = True"
| "is_list_dict v = False"

fun has_dict_attr :: "pyval \<Rightarrow> bool" where
  "has_dict_attr (PObject s r) = True"
| "has_dict_attr v = False"

fun type_name :: "pyval \<Rightarrow> string" where
  "type_name PNone = ''NoneType''"
| "type_name (PStr s) = ''str''"
| "type_name (PInt i) = ''int''"
| "type_name (PList xs) = ''list''"
| "type_name (PTuple xs) = ''tuple''"
| "type_name (PDict kvs) = ''dict''"
| "type_name (PObject s r) = ''object''"

text \<open>\<^verbatim>\<open>len(value)\<close> where the defenses take it (of a \<^verbatim>\<open>str\<close>, a list or a dict).\<close>

fun py_len :: "pyval \<Rightarrow> int" where
  "py_len (PStr s) = int (length s)"
| "py_len (PList xs) = int (length xs)"
| "py_len (PTuple xs) = int (length xs)"
| "py_len (PDict kvs) = int (length kvs)"
| "py_len v = 0"

section \<open>Defense mechanisms (red\_team/src/core/defenses.py)\<close>

text \<open>
  A mechanism is an instance of one of the seven subclasses of \<^verbatim>\<open>DefenseMechanism\<close>, with
  its \<^verbatim>\<open>config\<close>. \<^verbatim>\<open>request_count\<close> is the attribute of \<^verbatim>\<open>RateLimitingDefense\<close>; the other
  classes do not have it and never touch it.
\<close>

datatype DefenseClass =
    InputValidationDefense | TypeCheckingDefense | BoundsEnforcementDefense
  | SanitizationDefense | StateProtectionDefense | RateLimitingDefense | CryptographyDefense

record DefenseMechanism =
  mechanism_class :: DefenseClass
  config :: DefenseConfig
  request_count :: int

definition new_DefenseMechanism :: "DefenseClass \<Rightarrow> DefenseConfig \<Rightarrow> DefenseMechanism" where
  "new_DefenseMechanism k c = \<lparr>mechanism_class = k, config = c, request_count = 0\<rparr>"

definition InputValidationDefense_evaluate :: "DefenseConfig \<Rightarrow> pyval \<Rightarrow> bool \<times> string" where
  "InputValidationDefense_evaluate c v =
     (if v = PNone then (True, ''Rejected: null value'')
      else if v = PStr [] then (True, ''Rejected: empty string'')
      else if 4 \<le> strength c \<and> \<not> is_str_int_float v then (True, ''Rejected: invalid base type'')
      else (False, ''Passed validation''))"

definition TypeCheckingDefense_evaluate :: "DefenseConfig \<Rightarrow> pyval \<Rightarrow> bool \<times> string" where
  "TypeCheckingDefense_evaluate c v =
     (if is_list_dict_tuple_set v then (True, ''Rejected: '' @ type_name v @ '' type'')
      else if has_dict_attr v \<and> \<not> is_str_int_float v then (True, ''Rejected: complex object'')
      else (False, ''Passed type check''))"

text \<open>\<^verbatim>\<open>len(value) > max_len / 2\<close> is a comparison with a true quotient.\<close>

definition BoundsEnforcementDefense_evaluate :: "DefenseConfig \<Rightarrow> pyval \<Rightarrow> bool \<times> string" where
  "BoundsEnforcementDefense_evaluate c v =
     (let max_len = 50 - (10 - strength c) * 3 in
      if is_str v \<and> max_len < py_len v then
        (True, ''Rejected: string too long ('' @ str_of_int (py_len v) @ '' > ''
                 @ str_of_int max_len @ '')'')
      else if is_list_dict v \<and> (of_int max_len :: rat) / 2 < of_int (py_len v) then
        (True, ''Rejected: collection too large'')
      else (False, ''Passed bounds check''))"

definition dangerous_patterns :: "DefenseConfig \<Rightarrow> string list" where
  "dangerous_patterns c =
     [[squote], [dquote], '';'', ''--'', ''/*'', ''*/'', ''DROP'', ''DELETE'', ''UNION'']
     @ (if 8 \<le> strength c then [''<'', ''>'', ''{'', ''}'', ''['', '']''] else [])"

text \<open>\<^verbatim>\<open>pattern in value_str\<close> is \<^const>\<open>sublist\<close>; the loop returns at the first pattern found.\<close>

definition SanitizationDefense_evaluate ::
  "DefenseConfig \<Rightarrow> pyval \<Rightarrow> py_exception + bool \<times> string" where
  "SanitizationDefense_evaluate c v =
     (case py_str v of
        Inl e \<Rightarrow> Inl e
      | Inr s \<Rightarrow>
          (case find (\<lambda>pattern. sublist pattern (upper s)) (dangerous_patterns c) of
             Some pattern \<Rightarrow>
               Inr (True, ''Rejected: dangerous pattern '' @ [squote] @ pattern @ [squote])
           | None \<Rightarrow> Inr (False, ''Passed sanitization'')))"

definition StateProtectionDefense_evaluate ::
  "DefenseConfig \<Rightarrow> pyval \<Rightarrow> py_exception + bool \<times> string" where
  "StateProtectionDefense_evaluate c v =
     (if is_list_dict v then
        (case py_str v of
           Inl e \<Rightarrow> Inl e
         | Inr value_str \<Rightarrow>
             if sublist ''_protected'' value_str \<or> sublist ''_private'' value_str
             then Inr (True, ''Rejected: state injection attempt'')
             else if sublist ''exec'' value_str \<or> sublist ''eval'' value_str
             then Inr (True, ''Rejected: code injection attempt'')
             else Inr (False, ''Passed state protection''))
      else Inr (False, ''Passed state protection''))"

text \<open>The rate limiter counts every evaluation and resets its counter when it blocks.\<close>

definition RateLimitingDefense_evaluate ::
  "DefenseMechanism \<Rightarrow> pyval \<Rightarrow> (bool \<times> string) \<times> DefenseMechanism" where
  "RateLimitingDefense_evaluate m v =
     (let m1 = m\<lparr>request_count := request_count m + 1\<rparr> in
      if 5 \<le> strength (config m1) \<and> strength (config m1) * 2 < request_count m1
      then ((True, ''Rejected: rate limit exceeded''), m1\<lparr>request_count := 0\<rparr>)
      else ((False, ''Passed rate limit''), m1))"

definition CryptographyDefense_evaluate :: "DefenseConfig \<Rightarrow> pyval \<Rightarrow> bool \<times> string" where
  "CryptographyDefense_evaluate c v =
     (if 7 \<le> strength c \<and> is_str v \<and> py_len v mod 2 \<noteq> 0
         \<and> 0 < count_list (case v of PStr s \<Rightarrow> s | _ \<Rightarrow> []) squote
      then (True, ''Rejected: crypto validation failed'')
      else (False, ''Passed crypto check''))"

text \<open>
  \<^verbatim>\<open>evaluate\<close>, dispatched on the class: the result or the exception raised, and the
  mechanism afterwards.
\<close>

fun evaluate ::
  "DefenseMechanism \<Rightarrow> pyval \<Rightarrow> (py_exception + bool \<times> string) \<times> DefenseMechanism" where
  "evaluate m v =
     (case mechanism_class m of
        InputValidationDefense \<Rightarrow> (Inr (InputValidationDefense_evaluate (config m) v), m)
      | TypeCheckingDefense \<Rightarrow> (Inr (TypeCheckingDefense_evaluate (config m) v), m)
      | BoundsEnforcementDefense \<Rightarrow> (Inr (BoundsEnforcementDefense_evaluate (config m) v), m)
      | SanitizationDefense \<Rightarrow> (SanitizationDefense_evaluate (config m) v, m)
      | StateProtectionDefense \<Rightarrow> (StateProtectionDefense_evaluate (config m) v, m)
      | RateLimitingDefense \<Rightarrow>
          (case RateLimitingDefense_evaluate m v of (r, m1) \<Rightarrow> (Inr r, m1))
      | CryptographyDefense \<Rightarrow> (Inr (CryptographyDefense_evaluate (config m) v), m))"

text \<open>
  \<^verbatim>\<open>DefenseMechanism.execute\<close>: evaluate, then record the trigger. When \<^verbatim>\<open>evaluate\<close>
  raises, the trigger is not recorded.
\<close>

definition execute ::
  "DefenseMechanism \<Rightarrow> pyval \<Rightarrow> (py_exception + bool \<times> string) \<times> DefenseMechanism" where
  "execute m v =
     (case evaluate m v of
        (Inl e, m1) \<Rightarrow> (Inl e, m1)
      | (Inr (should_block, reason), m1) \<Rightarrow>
          (Inr (should_block, reason), m1\<lparr>config := trigger (config m1) should_block\<rparr>))"

section \<open>Defense framework and seed (red\_team/src/core/framework.py)\<close>

text \<open>
  \<^verbatim>\<open>DefenseFramework.defenses\<close> is a dict from \<^verbatim>\<open>DefenseType\<close> to the mechanism. Its
  insertion order is the declaration order of the enumeration.
\<close>

record DefenseFramework =
  defenses :: "DefenseType \<rightharpoonup> DefenseMechanism"

text \<open>\<^verbatim>\<open>_initialize_defenses\<close>, from \<^verbatim>\<open>config.initial_strength\<close>.\<close>

definition initialize_defenses :: "int \<Rightarrow> DefenseFramework" where
  "initialize_defenses initial_strength =
     \<lparr>defenses = [
        INPUT_VALIDATION \<mapsto> new_DefenseMechanism InputValidationDefense
           (new_DefenseConfig INPUT_VALIDATION True initial_strength),
        TYPE_CHECKING \<mapsto> new_DefenseMechanism TypeCheckingDefense
           (new_DefenseConfig TYPE_CHECKING True initial_strength),
        BOUNDS_ENFORCEMENT \<mapsto> new_DefenseMechanism BoundsEnforcementDefense
           (new_DefenseConfig BOUNDS_ENFORCEMENT True initial_strength),
        SANITIZATION \<mapsto> new_DefenseMechanism SanitizationDefense
           (new_DefenseConfig SANITIZATION True initial_strength),
        STATE_PROTECTION \<mapsto> new_DefenseMechanism StateProtectionDefense
           (new_DefenseConfig STATE_PROTECTION True initial_strength),
        RATE_LIMITING \<mapsto> new_DefenseMechanism RateLimitingDefense
           (new_DefenseConfig RATE_LIMITING False 1),
        CRYPTOGRAPHY \<mapsto> new_DefenseMechanism CryptographyDefense
           (new_DefenseConfig CRYPTOGRAPHY False 1)]\<rparr>"

text \<open>
  \<^verbatim>\<open>apply_defense\<close>. \<^verbatim>\<open>except Exception as e\<close> turns an exception of \<^verbatim>\<open>execute\<close> into the
  pair \<^verbatim>\<open>(False, f"Defense execution error: {str(e)}")\<close>.
\<close>

definition apply_defense ::
  "DefenseFramework \<Rightarrow> DefenseType \<Rightarrow> pyval \<Rightarrow> (bool \<times> string) \<times> DefenseFramework" where
  "apply_defense fw t v =
     (case defenses fw t of
        None \<Rightarrow> ((False, ''Defense not found''), fw)
      | Some defense \<Rightarrow>
          if \<not> active (config defense) then ((False, ''Defense inactive''), fw)
          else
            (case execute defense v of
               (Inr r, m1) \<Rightarrow> (r, fw\<lparr>defenses := (defenses fw)(t \<mapsto> m1)\<rparr>)
             | (Inl e, m1) \<Rightarrow>
                 ((False, ''Defense execution error: '' @ str_of_exception e),
                  fw\<lparr>defenses := (defenses fw)(t \<mapsto> m1)\<rparr>)))"

definition activate :: "DefenseFramework \<Rightarrow> DefenseType \<Rightarrow> DefenseFramework" where
  "activate fw t =
     (case defenses fw t of
        None \<Rightarrow> fw
      | Some m \<Rightarrow> fw\<lparr>defenses := (defenses fw)(t \<mapsto> m\<lparr>config := (config m)\<lparr>active := True\<rparr>\<rparr>)\<rparr>)"

definition framework_strengthen :: "DefenseFramework \<Rightarrow> DefenseType \<Rightarrow> int \<Rightarrow> DefenseFramework" where
  "framework_strengthen fw t amount =
     (case defenses fw t of
        None \<Rightarrow> fw
      | Some m \<Rightarrow> fw\<lparr>defenses := (defenses fw)(t \<mapsto> m\<lparr>config := strengthen (config m) amount\<rparr>)\<rparr>)"

text \<open>
  \<^verbatim>\<open>get_snapshot\<close>: a dict from the \<^verbatim>\<open>.value\<close> of each registered type to its entry, as
  an association list in the order of the dict.
\<close>

record snapshot_entry =
  snap_active :: bool
  snap_strength :: int
  snap_triggered :: int
  snap_effectiveness :: rat

definition snapshot_of :: "DefenseMechanism \<Rightarrow> snapshot_entry" where
  "snapshot_of m =
     \<lparr>snap_active = active (config m), snap_strength = strength (config m),
      snap_triggered = times_triggered (config m),
      snap_effectiveness = effectiveness (config m)\<rparr>"

definition get_snapshot :: "DefenseFramework \<Rightarrow> (string \<times> snapshot_entry) list" where
  "get_snapshot fw =
     concat (map (\<lambda>t. case defenses fw t of None \<Rightarrow> []
                       | Some m \<Rightarrow> [(DefenseType_value t, snapshot_of m)])
                 DefenseType_members)"

record Exploit =
  vector :: DefenseType
  description :: string
  payload :: pyval
  severity :: SeverityLevel
  difficulty :: int
  blocked :: bool
  defense_reason :: string

text \<open>
  \<^verbatim>\<open>AttackPattern\<close>. The \<^verbatim>\<open>payload_generator\<close> is a callable without arguments; the two
  lambdas of the executor read \<^verbatim>\<open>self.generation_number\<close>, so here a generator is a
  function of that number, which returns the payload or raises.
\<close>

record AttackPattern =
  pattern_defense_type :: DefenseType
  payload_generator :: "int \<Rightarrow> py_exception + pyval"
  pattern_description :: string
  pattern_difficulty :: int
  success_count :: int
  attempt_count :: int
  adaptations :: int

text \<open>
  The ratio is a float in the source and an exact rational here; the comparisons with
  \<^verbatim>\<open>0.6\<close> and \<^verbatim>\<open>0.2\<close> agree with the exact ones for every count a run can reach.
\<close>

definition success_rate :: "AttackPattern \<Rightarrow> rat" where
  "success_rate p =
     (if attempt_count p = 0 then 0 else of_int (success_count p) / of_int (attempt_count p))"

definition record_attempt :: "AttackPattern \<Rightarrow> bool \<Rightarrow> AttackPattern" where
  "record_attempt p succeeded =
     (let p1 = p\<lparr>attempt_count := attempt_count p + 1\<rparr>
      in if succeeded then p1\<lparr>success_count := success_count p1 + 1\<rparr> else p1)"

record TestIssue =
  issue_type :: string
  issue_description :: string
  issue_severity :: SeverityLevel
  affected_defense :: "DefenseType option"
  root_cause :: string
  fix_applied :: string
  fix_verified :: bool

record GenerationReport =
  generation :: int
  phase :: EvolutionPhase
  exploits :: "Exploit list"
  issues :: "TestIssue list"
  defenses_snapshot :: "(string \<times> snapshot_entry) list"
  fitness_score :: rat
  code_iterations :: int
  attacks_blocked :: int
  attacks_total :: int

text \<open>The property \<^verbatim>\<open>GenerationReport.success_rate\<close>.\<close>

definition report_success_rate :: "GenerationReport \<Rightarrow> rat" where
  "report_success_rate r =
     (if attacks_total r = 0 then 0
      else of_int (attacks_blocked r) / of_int (attacks_total r) * 100)"

record EvolvableSeed =
  name :: string
  seed_generation :: int
  defense_framework :: DefenseFramework
  evolution_history :: "GenerationReport list"

definition new_EvolvableSeed :: "string \<Rightarrow> int \<Rightarrow> EvolvableSeed" where
  "new_EvolvableSeed nm initial_strength =
     \<lparr>name = nm, seed_generation = 0,
      defense_framework = initialize_defenses initial_strength, evolution_history = []\<rparr>"

definition test_defense ::
  "EvolvableSeed \<Rightarrow> DefenseType \<Rightarrow> pyval \<Rightarrow> (bool \<times> string) \<times> EvolvableSeed" where
  "test_defense sd t v =
     (case apply_defense (defense_framework sd) t v of
        (r, fw) \<Rightarrow> (r, sd\<lparr>defense_framework := fw\<rparr>))"

text \<open>\<^verbatim>\<open>strengthen_defense\<close> with the amount given, as every caller here gives it.\<close>

definition strengthen_defense :: "EvolvableSeed \<Rightarrow> DefenseType \<Rightarrow> int \<Rightarrow> EvolvableSeed" where
  "strengthen_defense sd t amount =
     sd\<lparr>defense_framework := framework_strengthen (defense_framework sd) t amount\<rparr>"

definition activate_defense :: "EvolvableSeed \<Rightarrow> DefenseType \<Rightarrow> EvolvableSeed" where
  "activate_defense sd t = sd\<lparr>defense_framework := activate (defense_framework sd) t\<rparr>"

definition get_defense_snapshot :: "EvolvableSeed \<Rightarrow> (string \<times> snapshot_entry) list" where
  "get_defense_snapshot sd = get_snapshot (defense_framework sd)"

definition record_evolution :: "EvolvableSeed \<Rightarrow> GenerationReport \<Rightarrow> EvolvableSeed" where
  "record_evolution sd report =
     sd\<lparr>evolution_history := evolution_history sd @ [report],
        seed_generation := generation report\<rparr>"

section \<open>Attack patterns and executor (red\_team/src/core/seed.py)\<close>

definition null_injection :: "int \<Rightarrow> py_exception + pyval" where
  "null_injection gen = Inr PNone"

definition empty_string :: "int \<Rightarrow> py_exception + pyval" where
  "empty_string gen = Inr (PStr [])"

definition type_confusion_list :: "int \<Rightarrow> py_exception + pyval" where
  "type_confusion_list gen = Inr (PList [PStr ''malicious'', PStr ''payload'', PStr ''data''])"

definition type_confusion_dict :: "int \<Rightarrow> py_exception + pyval" where
  "type_confusion_dict gen =
     Inr (PDict [(''payload'', PStr ''malicious''), (''exec'', PStr ''true'')])"

text \<open>\<^verbatim>\<open>"A" * size\<close> is the empty string for a negative size.\<close>

definition buffer_overflow_small :: "int \<Rightarrow> py_exception + pyval" where
  "buffer_overflow_small gen = Inr (PStr (replicate (nat (500 + gen * 100)) CHR ''A''))"

definition sql_injection :: "int \<Rightarrow> py_exception + pyval" where
  "sql_injection gen = Inr (PStr ([squote] @ ''; DROP TABLE users--''))"

definition sql_injection_obfuscated :: "int \<Rightarrow> py_exception + pyval" where
  "sql_injection_obfuscated gen =
     (if gen < 3 then Inr (PStr (''1'' @ [squote] @ ''/**/OR/**/1=1''))
      else Inr (PStr (''1'' @ [squote] @ ''/*!50000OR*/'' @ [squote] @ ''1'' @ [squote]
                        @ ''='' @ [squote] @ ''1'')))"

definition state_corruption :: "int \<Rightarrow> py_exception + pyval" where
  "state_corruption gen =
     Inr (PDict [(''_protected'', PStr ''corrupted''), (''_internal'', PStr ''compromised'')])"

definition code_injection :: "int \<Rightarrow> py_exception + pyval" where
  "code_injection gen =
     Inr (PDict [(''eval'', PStr (''exec('' @ [squote] @ ''malicious_code'' @ [squote] @ '')'')),
                 (''__builtins__'', PStr ''override'')])"

definition new_AttackPattern ::
  "string \<Rightarrow> DefenseType \<Rightarrow> (int \<Rightarrow> py_exception + pyval) \<Rightarrow> int \<Rightarrow> AttackPattern" where
  "new_AttackPattern nm t g d =
     \<lparr>pattern_defense_type = t, payload_generator = g, pattern_description = nm,
      pattern_difficulty = d, success_count = 0, attempt_count = 0, adaptations = 0\<rparr>"

definition pattern_catalog :: "AttackPattern list" where
  "pattern_catalog =
     [new_AttackPattern ''Null injection attack'' INPUT_VALIDATION null_injection 1,
      new_AttackPattern ''Empty string bypass'' INPUT_VALIDATION empty_string 1,
      new_AttackPattern ''List type confusion'' TYPE_CHECKING type_confusion_list 2,
      new_AttackPattern ''Dict type confusion'' TYPE_CHECKING type_confusion_dict 2,
      new_AttackPattern ''String buffer overflow'' BOUNDS_ENFORCEMENT buffer_overflow_small 3,
      new_AttackPattern ''SQL injection'' SANITIZATION sql_injection 4,
      new_AttackPattern ''Obfuscated SQL injection'' SANITIZATION sql_injection_obfuscated 5,
      new_AttackPattern ''State object corruption'' STATE_PROTECTION state_corruption 3,
      new_AttackPattern ''Code execution injection'' STATE_PROTECTION code_injection 5]"

text \<open>
  \<^verbatim>\<open>_initialize_patterns\<close>: the first \<^verbatim>\<open>min(len(patterns), initial_population_size)\<close>
  entries; an empty range when the size is not positive.
\<close>

definition initialize_patterns :: "int \<Rightarrow> AttackPattern list" where
  "initialize_patterns initial_population_size =
     take (nat (min (int (length pattern_catalog)) initial_population_size)) pattern_catalog"

definition calculate_severity :: "AttackPattern \<Rightarrow> SeverityLevel" where
  "calculate_severity p =
     (if 5 \<le> pattern_difficulty p then CRITICAL
      else if 4 \<le> pattern_difficulty p then HIGH
      else if 2 \<le> pattern_difficulty p then MEDIUM
      else LOW)"

text \<open>
  \<^verbatim>\<open>execute_attack\<close>: the exploit, the pattern with the attempt recorded, and the seed
  after the defense ran. A generator that raises gives the payload \<^verbatim>\<open>None\<close>.
\<close>

definition execute_attack ::
  "int \<Rightarrow> EvolvableSeed \<Rightarrow> AttackPattern \<Rightarrow> Exploit \<times> AttackPattern \<times> EvolvableSeed" where
  "execute_attack generation_number sd p =
     (let pl = (case payload_generator p generation_number of Inl e \<Rightarrow> PNone | Inr v \<Rightarrow> v) in
      case test_defense sd (pattern_defense_type p) pl of
        ((b, reason), sd1) \<Rightarrow>
          (let p1 = record_attempt p (\<not> b) in
           (\<lparr>vector = pattern_defense_type p1, description = pattern_description p1,
             payload = pl, severity = calculate_severity p1,
             difficulty = pattern_difficulty p1, blocked = b, defense_reason = reason\<rparr>,
            p1, sd1)))"

text \<open>
  The loop of \<^verbatim>\<open>execute_suite\<close> over the patterns, in order: the exploits, the number of
  blocked ones, the patterns and the seed afterwards.
\<close>

fun execute_patterns ::
  "int \<Rightarrow> EvolvableSeed \<Rightarrow> AttackPattern list \<Rightarrow>
   Exploit list \<times> int \<times> AttackPattern list \<times> EvolvableSeed" where
  "execute_patterns g sd [] = ([], 0, [], sd)"
| "execute_patterns g sd (p # ps) =
     (case execute_attack g sd p of
        (e, p1, sd1) \<Rightarrow>
          (case execute_patterns g sd1 ps of
             (es, blocked_count, ps1, sd2) \<Rightarrow>
               (e # es, (if blocked e then blocked_count + 1 else blocked_count), p1 # ps1, sd2)))"

section \<open>Adaptation engine (red\_team/src/core/seed.py)\<close>

text \<open>
  \<^verbatim>\<open>failures_by_defense\<close> is a dict in insertion order, from the \<^verbatim>\<open>.value\<close> of a type to
  the exploits that were not blocked. Every list in it has at least one exploit.
\<close>

fun add_failure :: "(string \<times> Exploit list) list \<Rightarrow> Exploit \<Rightarrow> (string \<times> Exploit list) list" where
  "add_failure [] e = [(DefenseType_value (vector e), [e])]"
| "add_failure ((k, es) # rest) e =
     (if k = DefenseType_value (vector e) then (k, es @ [e]) # rest
      else (k, es) # add_failure rest e)"

definition failures_by_defense :: "Exploit list \<Rightarrow> (string \<times> Exploit list) list" where
  "failures_by_defense es = foldl (\<lambda>d e. if \<not> blocked e then add_failure d e else d) [] es"

definition issue_of :: "string \<times> Exploit list \<Rightarrow> TestIssue" where
  "issue_of kv =
     \<lparr>issue_type = ''DEFENSE_FAILURE'',
      issue_description =
        fst kv @ '' failed against '' @ str_of_int (int (length (snd kv))) @ '' attacks'',
      issue_severity = (if 2 < length (snd kv) then CRITICAL else HIGH),
      affected_defense = Some (vector (hd (snd kv))),
      root_cause = [], fix_applied = [], fix_verified = False\<rparr>"

definition analyze_results :: "Exploit list \<Rightarrow> TestIssue list" where
  "analyze_results es = map issue_of (failures_by_defense es)"

text \<open>
  The lines of the adaptation log are f-strings that start with a pictogram; they are
  kept as their kind and arguments.
\<close>

datatype adaptation_message =
    Increased_difficulty string int int
  | Mutated_payload string

definition mutate_payload :: "AttackPattern \<Rightarrow> AttackPattern" where
  "mutate_payload p =
     (if pattern_defense_type p = BOUNDS_ENFORCEMENT
      then p\<lparr>pattern_difficulty := pattern_difficulty p + 1\<rparr>
      else if pattern_defense_type p = SANITIZATION
      then p\<lparr>pattern_difficulty := pattern_difficulty p + 1\<rparr>
      else if pattern_defense_type p = TYPE_CHECKING
      then p\<lparr>pattern_difficulty := pattern_difficulty p + 1\<rparr>
      else p)"

text \<open>The body of the loop of \<^verbatim>\<open>adapt_patterns\<close> for one pattern.\<close>

definition adapt_pattern :: "AttackPattern \<Rightarrow> AttackPattern \<times> adaptation_message list" where
  "adapt_pattern p =
     (if 6 / 10 < success_rate p then
        (let old_diff = pattern_difficulty p;
             p1 = p\<lparr>pattern_difficulty := min 10 (pattern_difficulty p + 1)\<rparr>;
             p2 = p1\<lparr>adaptations := adaptations p1 + 1\<rparr>
         in (p2, [Increased_difficulty (pattern_description p2) old_diff (pattern_difficulty p2)]))
      else if success_rate p < 2 / 10 \<and> 2 < attempt_count p then
        (let p1 = mutate_payload p in (p1, [Mutated_payload (pattern_description p1)]))
      else (p, []))"

fun adapt_patterns :: "AttackPattern list \<Rightarrow> AttackPattern list \<times> adaptation_message list" where
  "adapt_patterns [] = ([], [])"
| "adapt_patterns (p # ps) =
     (case adapt_pattern p of
        (p1, ms) \<Rightarrow> (case adapt_patterns ps of (ps1, ms1) \<Rightarrow> (p1 # ps1, ms @ ms1)))"

text \<open>Repeated passes of \<^verbatim>\<open>adapt_patterns\<close> over the same patterns.\<close>

fun adapt_passes :: "nat \<Rightarrow> AttackPattern list \<Rightarrow> AttackPattern list" where
  "adapt_passes 0 ps = ps"
| "adapt_passes (Suc n) ps = adapt_passes n (fst (adapt_patterns ps))"

section \<open>Evolution orchestrator (evolution\_orchestrator in counter\_intelligence\_system.py)\<close>

record EvolutionMetrics =
  metrics_generation :: int
  metrics_fitness_score :: rat
  metrics_attacks_blocked :: int
  metrics_attacks_total :: int
  defenses_active :: int
  defenses_total :: int
  issues_found :: int
  issues_resolved :: int
  metrics_code_iterations :: int

definition collect_generation_metrics :: "GenerationReport \<Rightarrow> EvolutionMetrics" where
  "collect_generation_metrics report =
     \<lparr>metrics_generation = generation report,
      metrics_fitness_score = report_success_rate report,
      metrics_attacks_blocked = attacks_blocked report,
      metrics_attacks_total = attacks_total report,
      defenses_active = int (length (filter (\<lambda>kv. snap_active (snd kv)) (defenses_snapshot report))),
      defenses_total = int (length (defenses_snapshot report)),
      issues_found =
        int (length (filter (\<lambda>i. issue_severity i \<in> {CRITICAL, HIGH}) (issues report))),
      issues_resolved = int (length (filter fix_verified (issues report))),
      metrics_code_iterations = code_iterations report\<rparr>"

text \<open>
  The orchestrator with its executor and adaptation engine. \<^verbatim>\<open>self.seed\<close> and
  \<^verbatim>\<open>self.red_team.target\<close> are the same object, so the seed is held once.
\<close>

record EvolutionOrchestrator =
  seed :: EvolvableSeed
  attack_patterns :: "AttackPattern list"
  generation_number :: int
  adaptation_history :: "adaptation_message list"
  metrics_history :: "EvolutionMetrics list"
  max_generations :: int
  evolution_log :: "GenerationReport list"
  code_iteration_count :: int

text \<open>
  \<^verbatim>\<open>EvolutionOrchestrator(seed, max_generations)\<close>, with the executor built from
  \<^verbatim>\<open>initial_population_size\<close>.
\<close>

definition new_EvolutionOrchestrator :: "EvolvableSeed \<Rightarrow> int \<Rightarrow> int \<Rightarrow> EvolutionOrchestrator" where
  "new_EvolutionOrchestrator sd initial_population_size max_gen =
     \<lparr>seed = sd, attack_patterns = initialize_patterns initial_population_size,
      generation_number = 0, adaptation_history = [], metrics_history = [],
      max_generations = max_gen, evolution_log = [], code_iteration_count = 0\<rparr>"

text \<open>
  \<^verbatim>\<open>execute_suite\<close> on the executor of the orchestrator: the triple it returns, and the
  orchestrator with the patterns and the seed as the attacks left them.
\<close>

definition execute_suite ::
  "EvolutionOrchestrator \<Rightarrow> (Exploit list \<times> int \<times> int) \<times> EvolutionOrchestrator" where
  "execute_suite st =
     (case execute_patterns (generation_number st) (seed st) (attack_patterns st) of
        (es, blocked_count, ps1, sd1) \<Rightarrow>
          ((es, blocked_count, int (length es)), st\<lparr>seed := sd1, attack_patterns := ps1\<rparr>))"

text \<open>The lines of the list \<^verbatim>\<open>fixes\<close>, as their kind and arguments.\<close>

datatype fix_message =
    Strengthened DefenseType
  | Activated DefenseType
  | Emergency rat

text \<open>
  \<^verbatim>\<open>failed_defenses\<close> is a set; it is visited here in the order in which the types were
  added. The strengthenings and activations of different types do not depend on the order.
\<close>

definition failed_defenses :: "Exploit list \<Rightarrow> DefenseType list" where
  "failed_defenses es =
     foldl (\<lambda>acc e. if \<not> blocked e \<and> vector e \<notin> set acc then acc @ [vector e] else acc) [] es"

fun strengthen_failed ::
  "DefenseType list \<Rightarrow> fix_message list \<times> EvolvableSeed \<Rightarrow> fix_message list \<times> EvolvableSeed" where
  "strengthen_failed [] acc = acc"
| "strengthen_failed (t # ts) (fixes, sd) =
     strengthen_failed ts (fixes @ [Strengthened t], strengthen_defense sd t 2)"

text \<open>The dict \<^verbatim>\<open>defense_relationships\<close>; a type that is not a key has no entry.\<close>

fun defense_relationships :: "DefenseType \<Rightarrow> DefenseType list option" where
  "defense_relationships INPUT_VALIDATION = Some [SANITIZATION, BOUNDS_ENFORCEMENT]"
| "defense_relationships TYPE_CHECKING = Some [BOUNDS_ENFORCEMENT]"
| "defense_relationships SANITIZATION = Some [CRYPTOGRAPHY, STATE_PROTECTION]"
| "defense_relationships BOUNDS_ENFORCEMENT = Some [RATE_LIMITING]"
| "defense_relationships t = None"

text \<open>
  The inner loop of strategy 2. \<^verbatim>\<open>current_state[complementary.value]\<close> raises
  \<^verbatim>\<open>KeyError\<close> when the snapshot has no such key.
\<close>

fun activate_complementary ::
  "DefenseType list \<Rightarrow> fix_message list \<times> EvolvableSeed \<Rightarrow>
   py_exception + fix_message list \<times> EvolvableSeed" where
  "activate_complementary [] acc = Inr acc"
| "activate_complementary (c # cs) (fixes, sd) =
     (case map_of (get_defense_snapshot sd) (DefenseType_value c) of
        None \<Rightarrow> Inl (KeyError (DefenseType_value c))
      | Some entry \<Rightarrow>
          if \<not> snap_active entry
          then activate_complementary cs (fixes @ [Activated c], activate_defense sd c)
          else activate_complementary cs (fixes, sd))"

fun activate_related ::
  "DefenseType list \<Rightarrow> fix_message list \<times> EvolvableSeed \<Rightarrow>
   py_exception + fix_message list \<times> EvolvableSeed" where
  "activate_related [] acc = Inr acc"
| "activate_related (t # ts) acc =
     (case defense_relationships t of
        None \<Rightarrow> activate_related ts acc
      | Some cs \<Rightarrow>
          (case activate_complementary cs acc of
             Inl e \<Rightarrow> Inl e
           | Inr acc1 \<Rightarrow> activate_related ts acc1))"

text \<open>\<^verbatim>\<open>for defense_type in DefenseType: self.seed.activate_defense(defense_type)\<close>\<close>

definition activate_every :: "EvolvableSeed \<Rightarrow> EvolvableSeed" where
  "activate_every sd = foldl activate_defense sd DefenseType_members"

definition emergency_fitness :: "Exploit list \<Rightarrow> rat" where
  "emergency_fitness es =
     (if es \<noteq> [] then of_nat (length (filter blocked es)) / of_nat (length es) * 100 else 0)"

definition apply_defensive_adaptations ::
  "EvolvableSeed \<Rightarrow> TestIssue list \<Rightarrow> Exploit list \<Rightarrow>
   py_exception + fix_message list \<times> EvolvableSeed" where
  "apply_defensive_adaptations sd iss es =
     (let failed = failed_defenses es in
      case activate_related failed (strengthen_failed failed ([], sd)) of
        Inl e \<Rightarrow> Inl e
      | Inr (fixes, sd1) \<Rightarrow>
          (let fitness = emergency_fitness es in
           if fitness < 50
           then Inr (fixes @ [Emergency fitness], activate_every sd1)
           else Inr (fixes, sd1)))"

text \<open>
  \<^verbatim>\<open>run_generation\<close>. The printing, of \<^verbatim>\<open>_display_generation_state\<close> too, changes no
  state and is left out. The result is the report and the orchestrator afterwards, or
  the exception that ended the call.
\<close>

definition run_generation ::
  "int \<Rightarrow> EvolutionOrchestrator \<Rightarrow> py_exception + GenerationReport \<times> EvolutionOrchestrator" where
  "run_generation gen_num st =
     (case execute_suite (st\<lparr>generation_number := gen_num\<rparr>) of
        ((es, blocked_count, total_count), st1) \<Rightarrow>
          (let fitness =
                 (if 0 < total_count then of_int blocked_count / of_int total_count * 100
                  else 0);
               iss = analyze_results es
           in case apply_defensive_adaptations (seed st1) iss es of
                Inl e \<Rightarrow> Inl e
              | Inr (fixes, sd2) \<Rightarrow>
                  (case adapt_patterns (attack_patterns st1) of
                     (ps2, attack_adaptations) \<Rightarrow>
                       (let report =
                              \<lparr>generation = gen_num, phase = VERIFICATION, exploits = es,
                               issues = iss, defenses_snapshot = get_defense_snapshot sd2,
                               fitness_score = fitness,
                               code_iterations = int (length fixes),
                               attacks_blocked = blocked_count, attacks_total = total_count\<rparr>
                        in Inr (report,
                                st1\<lparr>seed := record_evolution sd2 report,
                                    attack_patterns := ps2,
                                    adaptation_history :=
                                      adaptation_history st1 @ attack_adaptations,
                                    evolution_log := evolution_log st1 @ [report],
                                    code_iteration_count :=
                                      code_iteration_count st1 + int (length fixes)\<rparr>)))))"

text \<open>\<^verbatim>\<open>_check_stagnation\<close>: \<^verbatim>\<open>recent = self.evolution_log[-3:]\<close>.\<close>

definition check_stagnation :: "EvolutionOrchestrator \<Rightarrow> bool" where
  "check_stagnation st =
     (if length (evolution_log st) < 4 then False
      else
        (let recent = drop (length (evolution_log st) - 3) (evolution_log st);
             fitness_values = map fitness_score recent
         in Max (set fitness_values) - Min (set fitness_values) < 5))"

text \<open>\<^verbatim>\<open>_apply_breakthrough_mutations\<close>\<close>

definition apply_breakthrough_mutations :: "EvolutionOrchestrator \<Rightarrow> EvolutionOrchestrator" where
  "apply_breakthrough_mutations st =
     st\<lparr>seed := foldl (\<lambda>sd t. activate_defense (strengthen_defense sd t 3) t)
                      (seed st) DefenseType_members\<rparr>"

text \<open>
  The two messages that the loop of \<^verbatim>\<open>run_evolution_cycle\<close> prints: the perfect defense
  at a generation, and the stagnation that starts a breakthrough pass.
\<close>

datatype cycle_message = Perfect_defense int | Stagnating int

text \<open>
  The body of the loop after \<^verbatim>\<open>run_generation\<close> and the metrics: whether the loop
  breaks, the orchestrator, and what is printed.
\<close>

definition after_generation ::
  "int \<Rightarrow> GenerationReport \<Rightarrow> EvolutionOrchestrator \<Rightarrow>
   bool \<times> EvolutionOrchestrator \<times> cycle_message list" where
  "after_generation gen report st =
     (if 100 \<le> fitness_score report then (True, st, [Perfect_defense gen])
      else if 3 < gen \<and> check_stagnation st
      then (False, apply_breakthrough_mutations st, [Stagnating gen])
      else (False, st, []))"

fun evolution_loop ::
  "int list \<Rightarrow> EvolutionOrchestrator \<Rightarrow>
   py_exception + EvolutionOrchestrator \<times> cycle_message list" where
  "evolution_loop [] st = Inr (st, [])"
| "evolution_loop (gen # gens) st =
     (case run_generation gen st of
        Inl e \<Rightarrow> Inl e
      | Inr (report, st1) \<Rightarrow>
          (let st2 = st1\<lparr>metrics_history :=
                           metrics_history st1 @ [collect_generation_metrics report]\<rparr>
           in case after_generation gen report st2 of
                (stop, st3, out) \<Rightarrow>
                  if stop then Inr (st3, out)
                  else (case evolution_loop gens st3 of
                          Inl e \<Rightarrow> Inl e
                        | Inr (st4, out1) \<Rightarrow> Inr (st4, out @ out1))))"

text \<open>
  \<^verbatim>\<open>print_evolution_summary\<close> only prints, but its averages divide by the number of
  defenses in a snapshot and by the number of patterns: what it raises, if anything.
\<close>

definition print_evolution_summary :: "EvolutionOrchestrator \<Rightarrow> py_exception option" where
  "print_evolution_summary st =
     (if evolution_log st = [] then None
      else if defenses_snapshot (hd (evolution_log st)) = []
              \<or> defenses_snapshot (last (evolution_log st)) = []
      then Some ZeroDivisionError
      else if attack_patterns st = [] then Some ZeroDivisionError
      else None)"

text \<open>\<^verbatim>\<open>run_evolution_cycle\<close>: \<^verbatim>\<open>for gen in range(self.max_generations)\<close>, then the summary.\<close>

definition run_evolution_cycle ::
  "EvolutionOrchestrator \<Rightarrow> py_exception + EvolutionOrchestrator \<times> cycle_message list" where
  "run_evolution_cycle st =
     (case evolution_loop [0 .. max_generations st - 1] st of
        Inl e \<Rightarrow> Inl e
      | Inr (st1, out) \<Rightarrow>
          (case print_evolution_summary st1 of
             Some e \<Rightarrow> Inl e
           | None \<Rightarrow> Inr (st1, out)))"

section \<open>Registered mechanisms\<close>

text \<open>The types that have a mechanism in the framework of a seed.\<close>

definition registered :: "EvolvableSeed \<Rightarrow> DefenseType set" where
  "registered sd = dom (defenses (defense_framework sd))"


section \<open>Scenarios\<close>

text \<open>A report with a given generation and fitness, for a scenario on the evolution log.\<close>

definition log_entry :: "int \<Rightarrow> rat \<Rightarrow> GenerationReport" where
  "log_entry g f =
     \<lparr>generation = g, phase = VERIFICATION, exploits = [], issues = [],
      defenses_snapshot = [], fitness_score = f, code_iterations = 0,
      attacks_blocked = 0, attacks_total = 0\<rparr>"


text \<open>
  The stagnation scenario: the log holds reports with the fitness values 40, 42, 41, 43
  for four consecutive generations from \<open>g\<close>, after the reports \<open>before\<close>.
\<close>

definition stagnation_scenario ::
  "EvolutionOrchestrator \<Rightarrow> GenerationReport list \<Rightarrow> int \<Rightarrow> EvolutionOrchestrator" where
  "stagnation_scenario st before g =
     st\<lparr>evolution_log :=
          before @ [log_entry g 40, log_entry (g + 1) 42, log_entry (g + 2) 41,
                    log_entry (g + 3) 43]\<rparr>"

text \<open>
  The monotonicity scenario (\<^verbatim>\<open>test_defense_strengthening_effect\<close>): on a fresh seed and
  executor, run the suite, strengthen every member of \<^verbatim>\<open>DefenseType\<close> by 5, run the suite
  again; the result is the pair of the two blocked counts.
\<close>

definition strengthen_every :: "EvolvableSeed \<Rightarrow> int \<Rightarrow> EvolvableSeed" where
  "strengthen_every sd amount =
     foldl (\<lambda>sd1 t. strengthen_defense sd1 t amount) sd DefenseType_members"

definition strengthening_effect :: "int \<Rightarrow> int \<Rightarrow> int \<times> int" where
  "strengthening_effect initial_strength initial_population_size =
     (let st = new_EvolutionOrchestrator (new_EvolvableSeed ''TestSeed'' initial_strength)
                 initial_population_size 10
      in case execute_suite st of
           ((exploits1, blocked1, total1), st1) \<Rightarrow>
             (case execute_suite (st1\<lparr>seed := strengthen_every (seed st1) 5\<rparr>) of
                ((exploits2, blocked2, total2), st2) \<Rightarrow> (blocked1, blocked2)))"

text \<open>
  The dict \<^verbatim>\<open>defense_classes\<close> of \<^verbatim>\<open>_initialize_defenses\<close>: the class of the mechanism
  of each registered type.
\<close>

fun defense_classes :: "DefenseType \<Rightarrow> DefenseClass option" where
  "defense_classes INPUT_VALIDATION = Some InputValidationDefense"
| "defense_classes TYPE_CHECKING = Some TypeCheckingDefense"
| "defense_classes BOUNDS_ENFORCEMENT = Some BoundsEnforcementDefense"
| "defense_classes SANITIZATION = Some SanitizationDefense"
| "defense_classes STATE_PROTECTION = Some StateProtectionDefense"
| "defense_classes RATE_LIMITING = Some RateLimitingDefense"
| "defense_classes CRYPTOGRAPHY = Some CryptographyDefense"
| "defense_classes t = None"

text \<open>
  The types that the patterns of the catalog attack. \<open>targets_within P sd\<close>: each of them
  has its mechanism of the right class in the seed, active, with a strength that
  satisfies \<open>P\<close>.
\<close>

definition target_types :: "DefenseType list" where
  "target_types =
     [INPUT_VALIDATION, TYPE_CHECKING, BOUNDS_ENFORCEMENT, SANITIZATION, STATE_PROTECTION]"

definition targets_within :: "(int \<Rightarrow> bool) \<Rightarrow> EvolvableSeed \<Rightarrow> bool" where
  "targets_within P sd \<longleftrightarrow>
     list_all (\<lambda>t. case defenses (defense_framework sd) t of
                      None \<Rightarrow> False
                    | Some m \<Rightarrow> defense_classes t = Some (mechanism_class m)
                               \<and> active (config m) \<and> P (strength (config m)))
              target_types"

text \<open>Two patterns are the same attack when they have the same target and generator.\<close>

definition same_attack :: "AttackPattern \<Rightarrow> AttackPattern \<Rightarrow> bool" where
  "same_attack p q \<longleftrightarrow>
     pattern_defense_type p = pattern_defense_type q \<and> payload_generator p = payload_generator q"

section \<open>Clamping of the strength\<close>

lemma strengthen_upper: "strength (strengthen c a) \<le> 10"
  by (simp add: strengthen_def)

lemma strengthen_lower: "1 \<le> strength c \<Longrightarrow> 0 \<le> a \<Longrightarrow> 1 \<le> strength (strengthen c a)"
  by (simp add: strengthen_def)

text \<open>
  C8 (as the code has it). \<^verbatim>\<open>strengthen\<close> clamps from above only. From a strength in
  \<open>[1,10]\<close>, any sequence of calls leaves the strength at most 10, whatever the amounts;
  it stays at least 1 when no amount is negative.
\<close>

theorem strengthen_clamping:
  "1 \<le> strength c \<and> strength c \<le> 10 \<Longrightarrow>
     strength (strengthen_all c as) \<le> 10 \<and>
     ((\<forall>a \<in> set as. 0 \<le> a) \<longrightarrow> 1 \<le> strength (strengthen_all c as))"
proof (induction as arbitrary: c)
  case Nil
  then show ?case by simp
next
  case (Cons a as)
  have up: "strength (strengthen c a) \<le> 10"
    by (rule strengthen_upper)
  show ?case
  proof (cases "0 \<le> a")
    case True
    with Cons.prems have "1 \<le> strength (strengthen c a)"
      by (simp add: strengthen_lower)
    with up Cons.IH [of "strengthen c a"] show ?thesis by simp
  next
    case False
    have "strength (strengthen_all (strengthen c a) as) \<le> 10"
    proof (cases as)
      case Nil
      with up show ?thesis by simp
    next
      case (Cons b bs)
      have "strength (strengthen_all c' xs) \<le> 10" if "strength c' \<le> 10" for c' xs
        using that by (induction xs arbitrary: c') (simp_all add: strengthen_upper)
      with up show ?thesis by blast
    qed
    with False show ?thesis by simp
  qed
qed

theorem strengthen_clamping_witness:
  "1 \<le> strength (new_DefenseConfig INPUT_VALIDATION True 5) \<and>
   strength (new_DefenseConfig INPUT_VALIDATION True 5) \<le> 10 \<and>
   strength (strengthen_all (new_DefenseConfig INPUT_VALIDATION True 5) [2, 5]) \<le> 10 \<and>
   1 \<le> strength (strengthen_all (new_DefenseConfig INPUT_VALIDATION True 5) [2, 5])"
proof -
  have h: "1 \<le> strength (new_DefenseConfig INPUT_VALIDATION True 5)
           \<and> strength (new_DefenseConfig INPUT_VALIDATION True 5) \<le> 10"
    by (simp add: new_DefenseConfig_def)
  have nonneg: "\<forall>a \<in> set [2, 5 :: int]. 0 \<le> a" by simp
  from strengthen_clamping [OF h, of "[2, 5]"] nonneg h show ?thesis
    by blast
qed

text \<open>
  C8 as stated fails: the amount is any \<^verbatim>\<open>int\<close>, and a negative one takes the strength
  below 1, since there is no lower clamp.
\<close>

theorem strengthen_clamping_counterexample:
  "\<not> (1 \<le> strength (strengthen_all (new_DefenseConfig INPUT_VALIDATION True 5) [- 10]))"
  by (simp add: new_DefenseConfig_def strengthen_def)

section \<open>The boundary of the defense framework\<close>

lemma evaluate_config: "config (snd (evaluate m v)) = config m"
  by (simp add: RateLimitingDefense_evaluate_def Let_def split: DefenseClass.splits)

lemma execute_raises:
  "evaluate m v = (Inl e, m1) \<Longrightarrow> execute m v = (Inl e, m1)"
  by (simp add: execute_def)

lemma execute_completes:
  "evaluate m v = (Inr (b, r), m1) \<Longrightarrow>
     execute m v = (Inr (b, r), m1\<lparr>config := trigger (config m) b\<rparr>)"
  using evaluate_config [of m v] by (simp add: execute_def)

lemma trigger_counts:
  "times_triggered (trigger c b) = times_triggered c + 1 \<and>
   successful_blocks (trigger c b) = (if b then successful_blocks c + 1 else successful_blocks c) \<and>
   false_positives (trigger c b) = (if b then false_positives c else false_positives c + 1)"
  by (simp add: trigger_def Let_def)

lemma apply_defense_not_found:
  "defenses fw t = None \<Longrightarrow> apply_defense fw t v = ((False, ''Defense not found''), fw)"
  by (simp add: apply_defense_def)

lemma apply_defense_inactive:
  "defenses fw t = Some m \<Longrightarrow> \<not> active (config m) \<Longrightarrow>
     apply_defense fw t v = ((False, ''Defense inactive''), fw)"
  by (simp add: apply_defense_def)

lemma apply_defense_error:
  "defenses fw t = Some m \<Longrightarrow> active (config m) \<Longrightarrow> evaluate m v = (Inl e, m1) \<Longrightarrow>
     apply_defense fw t v =
       ((False, ''Defense execution error: '' @ str_of_exception e),
        fw\<lparr>defenses := (defenses fw)(t \<mapsto> m1)\<rparr>)"
  by (simp add: apply_defense_def execute_raises)

lemma apply_defense_completes:
  "defenses fw t = Some m \<Longrightarrow> active (config m) \<Longrightarrow> evaluate m v = (Inr (b, r), m1) \<Longrightarrow>
     apply_defense fw t v =
       ((b, r), fw\<lparr>defenses := (defenses fw)(t \<mapsto> m1\<lparr>config := trigger (config m) b\<rparr>)\<rparr>)"
  by (simp add: apply_defense_def execute_completes)

text \<open>
  C6. \<^verbatim>\<open>apply_defense\<close> is a total function to a pair of a flag and a reason. A type with
  no mechanism gives \<^verbatim>\<open>(False, "Defense not found")\<close> and leaves the framework as it was;
  an exception raised by the evaluation of an active mechanism is caught and gives
  \<^verbatim>\<open>False\<close> with the reason \<^verbatim>\<open>"Defense execution error: "\<close> followed by its message.
\<close>

theorem apply_defense_never_raises:
  "(defenses fw t = None \<longrightarrow> apply_defense fw t v = ((False, ''Defense not found''), fw)) \<and>
   (\<forall>m e m1. defenses fw t = Some m \<and> active (config m) \<and> evaluate m v = (Inl e, m1) \<longrightarrow>
      fst (apply_defense fw t v) = (False, ''Defense execution error: '' @ str_of_exception e))"
  by (simp add: apply_defense_not_found apply_defense_error)

theorem apply_defense_never_raises_witness:
  "apply_defense (initialize_defenses 1) LOGIC_HARDENING PNone
     = ((False, ''Defense not found''), initialize_defenses 1) \<and>
   fst (apply_defense (initialize_defenses 1) SANITIZATION
          (PObject (Inl (PyException ''boom'')) (Inr ''obj'')))
     = (False, ''Defense execution error: boom'')"
proof -
  let ?m = "new_DefenseMechanism SanitizationDefense (new_DefenseConfig SANITIZATION True 1)"
  let ?v = "PObject (Inl (PyException ''boom'')) (Inr ''obj'')"
  have none: "defenses (initialize_defenses 1) LOGIC_HARDENING = None"
    by (simp add: initialize_defenses_def)
  have some: "defenses (initialize_defenses 1) SANITIZATION = Some ?m"
    by (simp add: initialize_defenses_def)
  have act: "active (config ?m)"
    by (simp add: new_DefenseMechanism_def new_DefenseConfig_def)
  have ev: "evaluate ?m ?v = (Inl (PyException ''boom''), ?m)"
    by (simp add: new_DefenseMechanism_def SanitizationDefense_evaluate_def py_str_def)
  from apply_defense_never_raises [of "initialize_defenses 1" LOGIC_HARDENING PNone] none
  have a: "apply_defense (initialize_defenses 1) LOGIC_HARDENING PNone
     = ((False, ''Defense not found''), initialize_defenses 1)" by blast
  from apply_defense_never_raises [of "initialize_defenses 1" SANITIZATION ?v] some act ev
  have "fst (apply_defense (initialize_defenses 1) SANITIZATION ?v)
     = (False, ''Defense execution error: '' @ str_of_exception (PyException ''boom''))" by blast
  with a show ?thesis by simp
qed

text \<open>
  C7. For a registered type whose mechanism is inactive, \<^verbatim>\<open>apply_defense\<close> returns
  \<^verbatim>\<open>(False, "Defense inactive")\<close> for every payload and the whole framework, with all the
  counters, is unchanged. When the mechanism is active and its evaluation returns, the
  call adds one to \<^verbatim>\<open>times_triggered\<close> and to exactly one of \<^verbatim>\<open>successful_blocks\<close> and
  \<^verbatim>\<open>false_positives\<close>.
\<close>

theorem apply_defense_inactive_frame:
  "defenses fw t = Some m \<Longrightarrow>
   (\<not> active (config m) \<longrightarrow> apply_defense fw t v = ((False, ''Defense inactive''), fw)) \<and>
   (\<forall>b r m1. active (config m) \<and> evaluate m v = (Inr (b, r), m1) \<longrightarrow>
      (\<exists>fw1 m2. apply_defense fw t v = ((b, r), fw1) \<and> defenses fw1 t = Some m2 \<and>
         times_triggered (config m2) = times_triggered (config m) + 1 \<and>
         successful_blocks (config m2) =
           (if b then successful_blocks (config m) + 1 else successful_blocks (config m)) \<and>
         false_positives (config m2) =
           (if b then false_positives (config m) else false_positives (config m) + 1)))"
  by (simp add: apply_defense_inactive apply_defense_completes trigger_counts)

theorem apply_defense_inactive_frame_witness:
  "apply_defense (initialize_defenses 1) RATE_LIMITING (PStr ''hello'')
     = ((False, ''Defense inactive''), initialize_defenses 1) \<and>
   (\<exists>fw1 m2. apply_defense (initialize_defenses 1) INPUT_VALIDATION PNone
                 = ((True, ''Rejected: null value''), fw1) \<and>
              defenses fw1 INPUT_VALIDATION = Some m2 \<and>
              times_triggered (config m2) = 1 \<and> successful_blocks (config m2) = 1 \<and>
              false_positives (config m2) = 0)"
proof -
  let ?fw = "initialize_defenses 1"
  let ?r = "new_DefenseMechanism RateLimitingDefense (new_DefenseConfig RATE_LIMITING False 1)"
  let ?i = "new_DefenseMechanism InputValidationDefense (new_DefenseConfig INPUT_VALIDATION True 1)"
  have r: "defenses ?fw RATE_LIMITING = Some ?r"
    by (simp add: initialize_defenses_def)
  have off: "\<not> active (config ?r)"
    by (simp add: new_DefenseMechanism_def new_DefenseConfig_def)
  have i: "defenses ?fw INPUT_VALIDATION = Some ?i"
    by (simp add: initialize_defenses_def)
  have on: "active (config ?i)"
    by (simp add: new_DefenseMechanism_def new_DefenseConfig_def)
  have ev: "evaluate ?i PNone = (Inr (True, ''Rejected: null value''), ?i)"
    by (simp add: new_DefenseMechanism_def InputValidationDefense_evaluate_def)
  have zero: "times_triggered (config ?i) = 0 \<and> successful_blocks (config ?i) = 0
              \<and> false_positives (config ?i) = 0"
    by (simp add: new_DefenseMechanism_def new_DefenseConfig_def)
  from apply_defense_inactive_frame [OF r, of "PStr ''hello''"] off
  have a: "apply_defense ?fw RATE_LIMITING (PStr ''hello'') = ((False, ''Defense inactive''), ?fw)"
    by blast
  from apply_defense_inactive_frame [OF i, of PNone] on ev
  obtain fw1 m2 where
    "apply_defense ?fw INPUT_VALIDATION PNone = ((True, ''Rejected: null value''), fw1)"
    "defenses fw1 INPUT_VALIDATION = Some m2"
    "times_triggered (config m2) = times_triggered (config ?i) + 1"
    "successful_blocks (config m2) = successful_blocks (config ?i) + 1"
    "false_positives (config m2) = false_positives (config ?i)"
    by (metis (full_types))
  with zero a show ?thesis by auto
qed

section \<open>Attack adaptation\<close>

lemma adapt_pattern_mutation:
  "success_rate p < 2 / 10 \<Longrightarrow> 2 < attempt_count p \<Longrightarrow>
   pattern_defense_type p \<in> {BOUNDS_ENFORCEMENT, SANITIZATION, TYPE_CHECKING} \<Longrightarrow>
     adapt_pattern p =
       (p\<lparr>pattern_difficulty := pattern_difficulty p + 1\<rparr>,
        [Mutated_payload (pattern_description p)])"
  by (auto simp add: adapt_pattern_def mutate_payload_def)

lemma adapt_pattern_working:
  "6 / 10 < success_rate p \<Longrightarrow>
     pattern_difficulty (fst (adapt_pattern p)) = min 10 (pattern_difficulty p + 1) \<and>
     adaptations (fst (adapt_pattern p)) = adaptations p + 1"
  by (simp add: adapt_pattern_def Let_def)

lemma adapt_pattern_difficulty_lower:
  "1 \<le> pattern_difficulty p \<Longrightarrow> 1 \<le> pattern_difficulty (fst (adapt_pattern p))"
  by (simp add: adapt_pattern_def mutate_payload_def Let_def)

text \<open>
  C2 fails on the code. The branch for a working pattern caps the difficulty with
  \<^verbatim>\<open>min(10, ...)\<close>, but \<^verbatim>\<open>_mutate_payload\<close> adds one with no cap: a sanitization pattern of
  difficulty 10 with three attempts and no success leaves \<^verbatim>\<open>adapt_patterns\<close> with
  difficulty 11, and so does the catalog pattern of difficulty 4 after seven passes.
\<close>

theorem mutation_exceeds_cap:
  "adapt_patterns
     [(new_AttackPattern ''SQL injection'' SANITIZATION sql_injection 10)\<lparr>attempt_count := 3\<rparr>]
   = ([(new_AttackPattern ''SQL injection'' SANITIZATION sql_injection 10)
         \<lparr>attempt_count := 3, pattern_difficulty := 11\<rparr>],
      [Mutated_payload ''SQL injection'']) \<and>
   map pattern_difficulty (adapt_passes 7
     [(new_AttackPattern ''SQL injection'' SANITIZATION sql_injection 4)\<lparr>attempt_count := 3\<rparr>])
   = [11]"
  by (simp add: adapt_pattern_def success_rate_def new_AttackPattern_def mutate_payload_def
        eval_nat_numeral)

text \<open>
  C3 fails on the code. For a failing pattern that targets sanitization, one pass of
  \<^verbatim>\<open>adapt_patterns\<close> raises the difficulty from 4 to 5, but \<^verbatim>\<open>adaptations\<close> stays 0: only the
  branch for a working pattern increments it.
\<close>

theorem mutation_keeps_adaptations:
  "pattern_difficulty (hd (fst (adapt_patterns
     [(new_AttackPattern ''SQL injection'' SANITIZATION sql_injection 4)
        \<lparr>attempt_count := 3\<rparr>]))) = 5 \<and>
   adaptations (hd (fst (adapt_patterns
     [(new_AttackPattern ''SQL injection'' SANITIZATION sql_injection 4)
        \<lparr>attempt_count := 3\<rparr>]))) = 0"
  by (simp add: adapt_pattern_def success_rate_def new_AttackPattern_def mutate_payload_def)

section \<open>Registration is preserved\<close>


lemma activate_dom: "dom (defenses (activate fw t)) = dom (defenses fw)"
  by (auto simp add: activate_def split: option.splits if_splits)

lemma framework_strengthen_dom: "dom (defenses (framework_strengthen fw t a)) = dom (defenses fw)"
  by (auto simp add: framework_strengthen_def split: option.splits if_splits)


lemma strengthen_defense_registered: "registered (strengthen_defense sd t a) = registered sd"
  by (simp add: registered_def strengthen_defense_def framework_strengthen_dom)

lemma activate_defense_registered: "registered (activate_defense sd t) = registered sd"
  by (simp add: registered_def activate_defense_def activate_dom)



lemma execute_patterns_counts:
  "execute_patterns g sd ps = (es, n, ps1, sd1) \<Longrightarrow>
     length es = length ps \<and> n = int (length (filter blocked es))"
proof (induction ps arbitrary: sd es n ps1 sd1)
  case Nil
  then show ?case by simp
next
  case (Cons p ps)
  then show ?case
    by (fastforce split: prod.splits)
qed



lemma DefenseType_members_all: "c \<in> set DefenseType_members"
  by (cases c) (simp_all add: DefenseType_members_def)








section \<open>One generation\<close>














section \<open>Types without a mechanism\<close>

lemma foldl_registered:
  assumes "\<And>sd t. registered (f sd t) = registered sd"
  shows "registered (foldl f sd ts) = registered sd"
  using assms by (induction ts arbitrary: sd) simp_all








lemma breakthrough_registered:
  "registered (seed (apply_breakthrough_mutations st)) = registered (seed st)"
proof -
  have "registered (foldl (\<lambda>sd t. activate_defense (strengthen_defense sd t 3) t) sd ts)
          = registered sd" for sd ts
    by (rule foldl_registered)
       (simp add: activate_defense_registered strengthen_defense_registered)
  then show ?thesis by (simp add: apply_breakthrough_mutations_def)
qed



section \<open>Stagnation and breakthrough\<close>

lemma step_defenses:
  "defenses (defense_framework (activate_defense (strengthen_defense sd t a) t)) x =
     (if x = t
      then map_option (\<lambda>m. m\<lparr>config := (strengthen (config m) a)\<lparr>active := True\<rparr>\<rparr>)
             (defenses (defense_framework sd) x)
      else defenses (defense_framework sd) x)"
  by (simp add: activate_defense_def strengthen_defense_def activate_def
        framework_strengthen_def split: option.splits)

lemma foldl_step_defenses:
  "distinct ts \<Longrightarrow>
   defenses (defense_framework
      (foldl (\<lambda>sd t. activate_defense (strengthen_defense sd t a) t) sd ts)) x =
     (if x \<in> set ts
      then map_option (\<lambda>m. m\<lparr>config := (strengthen (config m) a)\<lparr>active := True\<rparr>\<rparr>)
             (defenses (defense_framework sd) x)
      else defenses (defense_framework sd) x)"
proof (induction ts arbitrary: sd)
  case Nil
  then show ?case by simp
next
  case (Cons t ts)
  from Cons.prems have d: "distinct ts" and n: "t \<notin> set ts" by simp_all
  show ?case
    using Cons.IH [OF d, of "activate_defense (strengthen_defense sd t a) t"] n
    by (auto simp add: step_defenses simp del: map_option_eq_Some)
qed

lemma DefenseType_members_distinct: "distinct DefenseType_members"
  by (simp add: DefenseType_members_def)

lemma breakthrough_defenses:
  "defenses (defense_framework (seed (apply_breakthrough_mutations st))) t =
     map_option (\<lambda>m. m\<lparr>config := (strengthen (config m) 3)\<lparr>active := True\<rparr>\<rparr>)
       (defenses (defense_framework (seed st)) t)"
  using foldl_step_defenses [OF DefenseType_members_distinct, of 3 "seed st" t]
  by (simp add: apply_breakthrough_mutations_def DefenseType_members_all)

lemma after_generation_early:
  "gen \<le> 3 \<Longrightarrow>
     after_generation gen report st =
       (if 100 \<le> fitness_score report then (True, st, [Perfect_defense gen]) else (False, st, []))"
  by (simp add: after_generation_def)

lemma evolution_loop_early:
  "\<forall>g \<in> set gens. g \<le> 3 \<Longrightarrow> evolution_loop gens st = Inr (st1, out) \<Longrightarrow>
     Stagnating k \<notin> set out"
proof (induction gens arbitrary: st st1 out)
  case Nil
  then show ?case by simp
next
  case (Cons gen gens)
  from Cons.prems(1) have g: "gen \<le> 3" and rest: "\<forall>g \<in> set gens. g \<le> 3" by simp_all
  from Cons.prems(2) obtain report sa where run: "run_generation gen st = Inr (report, sa)"
    by (auto split: sum.splits)
  define sb where "sb = sa\<lparr>metrics_history :=
                           metrics_history sa @ [collect_generation_metrics report]\<rparr>"
  show ?case
  proof (cases "100 \<le> fitness_score report")
    case True
    with Cons.prems(2) run g have "out = [Perfect_defense gen]"
      by (simp add: after_generation_early Let_def)
    then show ?thesis by simp
  next
    case False
    with Cons.prems(2) run g obtain out1 where
      "evolution_loop gens sb = Inr (st1, out1)" "out = out1"
      by (auto simp add: after_generation_early Let_def sb_def split: sum.splits)
    with Cons.IH [OF rest] show ?thesis by blast
  qed
qed

text \<open>
  C1 (as the code has it). In the loop of \<^verbatim>\<open>run_evolution_cycle\<close>, a generation with index
  at most 3 never starts a breakthrough pass. After a generation with index above 3 and
  fitness below 100, when \<^verbatim>\<open>_check_stagnation\<close> holds (at least four reports, the last
  three fitness values less than 5 apart), the pass runs once for that generation: every
  type with a mechanism ends active with strength \<open>min 10 (strength + 3)\<close>, and no type
  is registered or removed. A cycle of at most four generations prints no stagnation.
\<close>

theorem breakthrough_rule:
  "(gen \<le> 3 \<longrightarrow>
      after_generation gen report st =
        (if 100 \<le> fitness_score report then (True, st, [Perfect_defense gen])
         else (False, st, []))) \<and>
   (3 < gen \<and> fitness_score report < 100 \<and> check_stagnation st \<longrightarrow>
      after_generation gen report st
        = (False, apply_breakthrough_mutations st, [Stagnating gen]) \<and>
      (\<forall>t m. defenses (defense_framework (seed st)) t = Some m \<longrightarrow>
         (\<exists>m1. defenses (defense_framework (seed (apply_breakthrough_mutations st))) t = Some m1
            \<and> strength (config m1) = min 10 (strength (config m) + 3)
            \<and> active (config m1))) \<and>
      registered (seed (apply_breakthrough_mutations st)) = registered (seed st)) \<and>
   (max_generations st \<le> 4 \<and> run_evolution_cycle st = Inr (st1, out) \<longrightarrow>
      Stagnating k \<notin> set out)"
proof -
  have early: "gen \<le> 3 \<longrightarrow>
      after_generation gen report st =
        (if 100 \<le> fitness_score report then (True, st, [Perfect_defense gen])
         else (False, st, []))"
    by (simp add: after_generation_early)
  have trig: "3 < gen \<and> fitness_score report < 100 \<and> check_stagnation st \<longrightarrow>
      after_generation gen report st
        = (False, apply_breakthrough_mutations st, [Stagnating gen])"
    by (simp add: after_generation_def)
  have eff: "\<forall>t m. defenses (defense_framework (seed st)) t = Some m \<longrightarrow>
         (\<exists>m1. defenses (defense_framework (seed (apply_breakthrough_mutations st))) t = Some m1
            \<and> strength (config m1) = min 10 (strength (config m) + 3)
            \<and> active (config m1))"
    by (simp add: breakthrough_defenses strengthen_def)
  have cyc: "Stagnating k \<notin> set out"
    if m: "max_generations st \<le> 4" and r: "run_evolution_cycle st = Inr (st1, out)"
  proof -
    from m have all: "\<forall>g \<in> set [0 .. max_generations st - 1]. g \<le> 3" by simp
    from r have "evolution_loop [0 .. max_generations st - 1] st = Inr (st1, out)"
      by (auto simp add: run_evolution_cycle_def split: sum.splits option.splits)
    from evolution_loop_early [OF all this] show ?thesis .
  qed
  from early trig eff cyc breakthrough_registered [of st] show ?thesis by blast
qed

lemma scenario_late:
  "check_stagnation
     (stagnation_scenario (new_EvolutionOrchestrator (new_EvolvableSeed ''TestSeed'' 1) 6 10)
        [log_entry 0 50] 1)"
  by (simp add: check_stagnation_def stagnation_scenario_def log_entry_def)

lemma fresh_cycle:
  "(case run_evolution_cycle (new_EvolutionOrchestrator (new_EvolvableSeed ''TestSeed'' 1) 6 4) of
      Inl e \<Rightarrow> False | Inr (st1, out) \<Rightarrow> out = [Perfect_defense 0])"
  by code_simp

text \<open>
  C1 as stated fails. With the fitness values 40, 42, 41, 43 in the log for the
  generations 0 to 3, the stagnation test holds but the fourth generation (index 3)
  starts no breakthrough pass. And when these values are logged for the generations 1
  to 4, the pass takes a strength of 9 to 10, not to 12, and \<^verbatim>\<open>LOGIC_HARDENING\<close> still has
  no mechanism to activate.
\<close>

theorem breakthrough_rule_counterexample:
  "map fitness_score (evolution_log
      (stagnation_scenario (new_EvolutionOrchestrator (new_EvolvableSeed ''TestSeed'' 1) 6 10) [] 0))
     = [40, 42, 41, 43] \<and>
   check_stagnation
      (stagnation_scenario (new_EvolutionOrchestrator (new_EvolvableSeed ''TestSeed'' 1) 6 10) [] 0)
   \<and>
   after_generation 3 (log_entry 3 43)
      (stagnation_scenario (new_EvolutionOrchestrator (new_EvolvableSeed ''TestSeed'' 1) 6 10) [] 0)
     = (False,
        stagnation_scenario (new_EvolutionOrchestrator (new_EvolvableSeed ''TestSeed'' 1) 6 10) [] 0,
        []) \<and>
   map_option (\<lambda>m. strength (config m))
     (defenses (defense_framework (seed (new_EvolutionOrchestrator (new_EvolvableSeed ''TestSeed'' 9) 6 10)))
        INPUT_VALIDATION) = Some 9 \<and>
   map_option (\<lambda>m. strength (config m))
     (defenses (defense_framework (seed (apply_breakthrough_mutations
        (stagnation_scenario (new_EvolutionOrchestrator (new_EvolvableSeed ''TestSeed'' 9) 6 10)
           [log_entry 0 50] 1))))
        INPUT_VALIDATION) = Some 10 \<and>
   defenses (defense_framework (seed (apply_breakthrough_mutations
        (stagnation_scenario (new_EvolutionOrchestrator (new_EvolvableSeed ''TestSeed'' 9) 6 10)
           [log_entry 0 50] 1))))
        LOGIC_HARDENING = None"
  by (simp add: breakthrough_defenses stagnation_scenario_def log_entry_def check_stagnation_def
        after_generation_def new_EvolutionOrchestrator_def new_EvolvableSeed_def
        initialize_defenses_def new_DefenseMechanism_def new_DefenseConfig_def strengthen_def)

theorem breakthrough_rule_witness:
  "after_generation 4 (log_entry 4 43)
      (stagnation_scenario (new_EvolutionOrchestrator (new_EvolvableSeed ''TestSeed'' 1) 6 10)
         [log_entry 0 50] 1)
     = (False,
        apply_breakthrough_mutations
          (stagnation_scenario (new_EvolutionOrchestrator (new_EvolvableSeed ''TestSeed'' 1) 6 10)
             [log_entry 0 50] 1),
        [Stagnating 4]) \<and>
   (\<exists>m1. defenses (defense_framework (seed (apply_breakthrough_mutations
             (stagnation_scenario
                (new_EvolutionOrchestrator (new_EvolvableSeed ''TestSeed'' 1) 6 10)
                [log_entry 0 50] 1)))) RATE_LIMITING = Some m1
          \<and> strength (config m1) = 4 \<and> active (config m1)) \<and>
   (\<exists>st1. run_evolution_cycle (new_EvolutionOrchestrator (new_EvolvableSeed ''TestSeed'' 1) 6 4)
            = Inr (st1, [Perfect_defense 0]))"
proof -
  let ?st = "stagnation_scenario (new_EvolutionOrchestrator (new_EvolvableSeed ''TestSeed'' 1) 6 10)
               [log_entry 0 50] 1"
  let ?m = "new_DefenseMechanism RateLimitingDefense (new_DefenseConfig RATE_LIMITING False 1)"
  have fit: "fitness_score (log_entry 4 43) < 100"
    by (simp add: log_entry_def)
  have rl: "defenses (defense_framework (seed ?st)) RATE_LIMITING = Some ?m"
    by (simp add: stagnation_scenario_def new_EvolutionOrchestrator_def new_EvolvableSeed_def
          initialize_defenses_def)
  have s1: "min 10 (strength (config ?m) + 3) = 4"
    by (simp add: new_DefenseMechanism_def new_DefenseConfig_def)
  obtain st1 out where cyc:
    "run_evolution_cycle (new_EvolutionOrchestrator (new_EvolvableSeed ''TestSeed'' 1) 6 4)
       = Inr (st1, out)" and out: "out = [Perfect_defense 0]"
    using fresh_cycle by (auto split: sum.splits)
  from breakthrough_rule [of 4 "log_entry 4 43" ?st] fit scenario_late
  have a: "after_generation 4 (log_entry 4 43) ?st
             = (False, apply_breakthrough_mutations ?st, [Stagnating 4])"
    and b: "\<forall>t m. defenses (defense_framework (seed ?st)) t = Some m \<longrightarrow>
         (\<exists>m1. defenses (defense_framework (seed (apply_breakthrough_mutations ?st))) t = Some m1
            \<and> strength (config m1) = min 10 (strength (config m) + 3)
            \<and> active (config m1))"
    by simp_all
  from b rl s1 have c: "\<exists>m1. defenses (defense_framework (seed (apply_breakthrough_mutations ?st)))
           RATE_LIMITING = Some m1 \<and> strength (config m1) = 4 \<and> active (config m1)"
    by metis
  from cyc out have "\<exists>st1. run_evolution_cycle
      (new_EvolutionOrchestrator (new_EvolvableSeed ''TestSeed'' 1) 6 4)
            = Inr (st1, [Perfect_defense 0])" by blast
  with a c show ?thesis by blast
qed

section \<open>Strengthening and the blocked count\<close>

lemma execute_shape:
  "mechanism_class (snd (execute m v)) = mechanism_class m \<and>
   active (config (snd (execute m v))) = active (config m) \<and>
   strength (config (snd (execute m v))) = strength (config m)"
  by (simp add: execute_def RateLimitingDefense_evaluate_def trigger_def Let_def
        split: DefenseClass.splits sum.splits prod.splits)

lemma apply_defense_shape:
  assumes "defenses fw x = Some m"
  shows "\<exists>m1. defenses (snd (apply_defense fw t v)) x = Some m1 \<and>
           mechanism_class m1 = mechanism_class m \<and>
           active (config m1) = active (config m) \<and>
           strength (config m1) = strength (config m)"
proof (cases "x = t \<and> active (config m)")
  case False
  with assms show ?thesis
    by (auto simp add: apply_defense_def split: option.splits prod.splits sum.splits)
next
  case True
  obtain r m1 where ex: "execute m v = (r, m1)" by (cases "execute m v")
  with execute_shape [of m v] have sh: "mechanism_class m1 = mechanism_class m"
    "active (config m1) = active (config m)" "strength (config m1) = strength (config m)"
    by simp_all
  from True assms ex have "defenses (snd (apply_defense fw t v)) x = Some m1"
    by (cases r) (simp_all add: apply_defense_def)
  with sh show ?thesis by simp
qed

lemma targets_within_apply:
  assumes "targets_within P sd"
  shows "targets_within P (snd (test_defense sd t v))"
proof -
  have fw: "defense_framework (snd (test_defense sd t v))
              = snd (apply_defense (defense_framework sd) t v)"
    by (simp add: test_defense_def split: prod.splits)
  have "case defenses (snd (apply_defense (defense_framework sd) t v)) x of
          None \<Rightarrow> False
        | Some m \<Rightarrow> defense_classes x = Some (mechanism_class m)
                   \<and> active (config m) \<and> P (strength (config m))"
    if "case defenses (defense_framework sd) x of
          None \<Rightarrow> False
        | Some m \<Rightarrow> defense_classes x = Some (mechanism_class m)
                   \<and> active (config m) \<and> P (strength (config m))" for x
  proof -
    from that obtain m where m: "defenses (defense_framework sd) x = Some m"
      "defense_classes x = Some (mechanism_class m)" "active (config m)" "P (strength (config m))"
      by (auto split: option.splits)
    from apply_defense_shape [OF m(1), of t v] m(2-4) show ?thesis by auto
  qed
  with assms show ?thesis
    by (simp add: targets_within_def fw list_all_iff)
qed

lemma sublist_single: "sublist [x] ys \<longleftrightarrow> x \<in> set ys"
  by (induction ys) (auto simp add: sublist_Cons_right)

lemma upper_char_squote: "upper_char squote = squote"
  by (simp add: upper_char_def squote_def)

lemma sanitization_blocks_quote:
  assumes "squote \<in> set s"
  shows "SanitizationDefense_evaluate c (PStr s)
           = Inr (True, ''Rejected: dangerous pattern '' @ [squote] @ [squote] @ [squote])"
proof -
  from assms have "upper_char squote \<in> set (upper s)"
    by (simp add: upper_def)
  then have "sublist [squote] (upper s)"
    by (simp add: sublist_single upper_char_squote)
  then show ?thesis
    by (simp add: SanitizationDefense_evaluate_def py_str_def dangerous_patterns_def)
qed

lemma bounds_blocks_overflow:
  assumes "strength c \<le> 10"
  shows "fst (BoundsEnforcementDefense_evaluate c (PStr (replicate 500 CHR ''A'')))"
  using assms by (simp add: BoundsEnforcementDefense_evaluate_def Let_def)

lemma state_protection_blocks_corruption:
  "StateProtectionDefense_evaluate c
     (PDict [(''_protected'', PStr ''corrupted''), (''_internal'', PStr ''compromised'')])
   = Inr (True, ''Rejected: state injection attempt'')"
  by code_simp

lemma state_protection_blocks_injection:
  "\<exists>pl. code_injection g = Inr pl \<and>
      StateProtectionDefense_evaluate c pl = Inr (True, ''Rejected: code injection attempt'')"
proof -
  have "StateProtectionDefense_evaluate c
     (PDict [(''eval'', PStr (''exec('' @ [squote] @ ''malicious_code'' @ [squote] @ '')'')),
             (''__builtins__'', PStr ''override'')])
   = Inr (True, ''Rejected: code injection attempt'')"
    by code_simp
  then show ?thesis
    unfolding code_injection_def by blast
qed

lemma catalog_targets:
  "q \<in> set pattern_catalog \<Longrightarrow> pattern_defense_type q \<in> set target_types"
  by (auto simp add: pattern_catalog_def new_AttackPattern_def target_types_def)

lemma catalog_blocked:
  assumes q: "q \<in> set pattern_catalog"
    and cls: "defense_classes (pattern_defense_type q) = Some (mechanism_class m)"
    and str: "strength (config m) \<le> 10"
  shows "\<exists>pl r m1. payload_generator q 0 = Inr pl \<and> evaluate m pl = (Inr (True, r), m1)"
proof -
  from q consider
      "q = new_AttackPattern ''Null injection attack'' INPUT_VALIDATION null_injection 1"
    | "q = new_AttackPattern ''Empty string bypass'' INPUT_VALIDATION empty_string 1"
    | "q = new_AttackPattern ''List type confusion'' TYPE_CHECKING type_confusion_list 2"
    | "q = new_AttackPattern ''Dict type confusion'' TYPE_CHECKING type_confusion_dict 2"
    | "q = new_AttackPattern ''String buffer overflow'' BOUNDS_ENFORCEMENT buffer_overflow_small 3"
    | "q = new_AttackPattern ''SQL injection'' SANITIZATION sql_injection 4"
    | "q = new_AttackPattern ''Obfuscated SQL injection'' SANITIZATION sql_injection_obfuscated 5"
    | "q = new_AttackPattern ''State object corruption'' STATE_PROTECTION state_corruption 3"
    | "q = new_AttackPattern ''Code execution injection'' STATE_PROTECTION code_injection 5"
    unfolding pattern_catalog_def by auto
  then show ?thesis
  proof cases
    case 1
    with cls show ?thesis
      by (simp add: new_AttackPattern_def null_injection_def InputValidationDefense_evaluate_def)
  next
    case 2
    with cls show ?thesis
      by (simp add: new_AttackPattern_def empty_string_def InputValidationDefense_evaluate_def)
  next
    case 3
    with cls show ?thesis
      by (simp add: new_AttackPattern_def type_confusion_list_def TypeCheckingDefense_evaluate_def)
  next
    case 4
    with cls show ?thesis
      by (simp add: new_AttackPattern_def type_confusion_dict_def TypeCheckingDefense_evaluate_def)
  next
    case 5
    with cls bounds_blocks_overflow [OF str] show ?thesis
      by (cases "BoundsEnforcementDefense_evaluate (config m) (PStr (replicate 500 CHR ''A''))")
         (simp add: new_AttackPattern_def buffer_overflow_small_def)
  next
    case 6
    with cls show ?thesis
      by (simp add: new_AttackPattern_def sql_injection_def sanitization_blocks_quote)
  next
    case 7
    with cls show ?thesis
      by (simp add: new_AttackPattern_def sql_injection_obfuscated_def sanitization_blocks_quote)
  next
    case 8
    with cls show ?thesis
      by (simp add: new_AttackPattern_def state_corruption_def
            state_protection_blocks_corruption)
  next
    case 9
    with cls state_protection_blocks_injection [of 0 "config m"] show ?thesis
      by (auto simp add: new_AttackPattern_def)
  qed
qed

lemma same_attack_refl: "same_attack p p"
  by (simp add: same_attack_def)

lemma record_attempt_same: "same_attack (record_attempt p b) p"
  by (simp add: same_attack_def record_attempt_def Let_def)

lemma execute_attack_preserves:
  assumes "execute_attack g sd p = (e, p1, sd1)" and "targets_within P sd"
  shows "targets_within P sd1 \<and> same_attack p1 p"
proof -
  let ?pl = "case payload_generator p g of Inl e \<Rightarrow> PNone | Inr v \<Rightarrow> v"
  obtain b reason sd' where t: "test_defense sd (pattern_defense_type p) ?pl = ((b, reason), sd')"
    by (cases "test_defense sd (pattern_defense_type p) ?pl") auto
  with assms(1) have eq: "sd1 = sd'" "p1 = record_attempt p (\<not> b)"
    by (simp_all add: execute_attack_def Let_def)
  from targets_within_apply [OF assms(2), of "pattern_defense_type p" ?pl] t
  have "targets_within P sd'" by simp
  with eq show ?thesis by (simp add: record_attempt_same)
qed

lemma execute_patterns_preserves:
  "execute_patterns g sd ps = (es, n, ps1, sd1) \<Longrightarrow> targets_within P sd \<Longrightarrow>
     targets_within P sd1 \<and> list_all2 same_attack ps1 ps"
proof (induction ps arbitrary: sd es n ps1 sd1)
  case Nil
  then show ?case by simp
next
  case (Cons p ps)
  obtain e pa sda where a: "execute_attack g sd p = (e, pa, sda)"
    by (cases "execute_attack g sd p")
  obtain es' n' ps' sd' where r: "execute_patterns g sda ps = (es', n', ps', sd')"
    by (cases "execute_patterns g sda ps")
  from execute_attack_preserves [OF a Cons.prems(2)]
  have pa: "targets_within P sda" "same_attack pa p" by simp_all
  from Cons.IH [OF r pa(1)] have "targets_within P sd'" "list_all2 same_attack ps' ps"
    by simp_all
  with Cons.prems(1) a r pa(2) show ?case by auto
qed

lemma execute_attack_blocked:
  assumes rdy: "targets_within (\<lambda>s. s \<le> 10) sd"
    and q: "q \<in> set pattern_catalog" and same: "same_attack p q"
    and ex: "execute_attack 0 sd p = (e, p1, sd1)"
  shows "blocked e"
proof -
  let ?t = "pattern_defense_type p"
  from same have ty: "?t = pattern_defense_type q" and gen: "payload_generator p = payload_generator q"
    by (simp_all add: same_attack_def)
  from catalog_targets [OF q] ty have "?t \<in> set target_types" by simp
  with rdy obtain m where m: "defenses (defense_framework sd) ?t = Some m"
    "defense_classes ?t = Some (mechanism_class m)" "active (config m)"
    "strength (config m) \<le> 10"
    by (auto simp add: targets_within_def list_all_iff split: option.splits)
  from m(2) ty have "defense_classes (pattern_defense_type q) = Some (mechanism_class m)"
    by simp
  from catalog_blocked [OF q this m(4)] gen
  obtain pl r m1 where pl: "payload_generator p 0 = Inr pl"
    and ev: "evaluate m pl = (Inr (True, r), m1)" by auto
  from apply_defense_completes [OF m(1) m(3) ev]
  obtain fw1 where "apply_defense (defense_framework sd) ?t pl = ((True, r), fw1)"
    by blast
  then have "test_defense sd ?t pl = ((True, r), sd\<lparr>defense_framework := fw1\<rparr>)"
    by (simp add: test_defense_def)
  with ex pl show ?thesis
    by (auto simp add: execute_attack_def Let_def)
qed

lemma execute_patterns_all_blocked:
  "execute_patterns 0 sd ps = (es, n, ps1, sd1) \<Longrightarrow> targets_within (\<lambda>s. s \<le> 10) sd \<Longrightarrow>
   list_all (\<lambda>p. \<exists>q \<in> set pattern_catalog. same_attack p q) ps \<Longrightarrow>
     n = int (length ps)"
proof (induction ps arbitrary: sd es n ps1 sd1)
  case Nil
  then show ?case by simp
next
  case (Cons p ps)
  obtain e pa sda where a: "execute_attack 0 sd p = (e, pa, sda)"
    by (cases "execute_attack 0 sd p")
  obtain es' n' ps' sd' where r: "execute_patterns 0 sda ps = (es', n', ps', sd')"
    by (cases "execute_patterns 0 sda ps")
  from Cons.prems(3) obtain q where q: "q \<in> set pattern_catalog" "same_attack p q"
    and rest: "list_all (\<lambda>p. \<exists>q \<in> set pattern_catalog. same_attack p q) ps"
    by auto
  from execute_attack_blocked [OF Cons.prems(2) q a] have b: "blocked e" .
  from execute_attack_preserves [OF a Cons.prems(2)] have "targets_within (\<lambda>s. s \<le> 10) sda"
    by simp
  from Cons.IH [OF r this rest] have "n' = int (length ps)" .
  with Cons.prems(1) a r b show ?case by simp
qed

lemma strengthen_step_defenses:
  "defenses (defense_framework (strengthen_defense sd t a)) x =
     (if x = t
      then map_option (\<lambda>m. m\<lparr>config := strengthen (config m) a\<rparr>)
             (defenses (defense_framework sd) x)
      else defenses (defense_framework sd) x)"
  by (simp add: strengthen_defense_def framework_strengthen_def split: option.splits)

lemma foldl_strengthen_defenses:
  "distinct ts \<Longrightarrow>
   defenses (defense_framework (foldl (\<lambda>sd1 t. strengthen_defense sd1 t a) sd ts)) x =
     (if x \<in> set ts
      then map_option (\<lambda>m. m\<lparr>config := strengthen (config m) a\<rparr>)
             (defenses (defense_framework sd) x)
      else defenses (defense_framework sd) x)"
proof (induction ts arbitrary: sd)
  case Nil
  then show ?case by simp
next
  case (Cons t ts)
  from Cons.prems have d: "distinct ts" and n: "t \<notin> set ts" by simp_all
  show ?case
    using Cons.IH [OF d, of "strengthen_defense sd t a"] n
    by (auto simp add: strengthen_step_defenses simp del: map_option_eq_Some)
qed

lemma strengthen_every_defenses:
  "defenses (defense_framework (strengthen_every sd a)) x =
     map_option (\<lambda>m. m\<lparr>config := strengthen (config m) a\<rparr>) (defenses (defense_framework sd) x)"
  using foldl_strengthen_defenses [OF DefenseType_members_distinct, of a sd x]
  by (simp add: strengthen_every_def DefenseType_members_all)

lemma strengthen_every_ready:
  "targets_within (\<lambda>s. True) sd \<Longrightarrow> targets_within (\<lambda>s. s \<le> 10) (strengthen_every sd a)"
  by (auto simp add: targets_within_def list_all_iff strengthen_every_defenses strengthen_def
        split: option.splits)

lemma fresh_targets: "targets_within (\<lambda>s. True) (new_EvolvableSeed nm s)"
  by (simp add: targets_within_def target_types_def new_EvolvableSeed_def
        initialize_defenses_def new_DefenseMechanism_def new_DefenseConfig_def)

lemma initialize_patterns_catalog:
  "list_all (\<lambda>p. \<exists>q \<in> set pattern_catalog. same_attack p q) (initialize_patterns n)"
proof -
  have "set (initialize_patterns n) \<subseteq> set pattern_catalog"
    unfolding initialize_patterns_def by (rule set_take_subset)
  then show ?thesis
    by (auto simp add: list_all_iff intro: same_attack_refl)
qed

lemma same_attack_catalog:
  "list_all2 same_attack ps1 ps \<Longrightarrow>
   list_all (\<lambda>p. \<exists>q \<in> set pattern_catalog. same_attack p q) ps \<Longrightarrow>
   list_all (\<lambda>p. \<exists>q \<in> set pattern_catalog. same_attack p q) ps1"
proof (induction rule: list_all2_induct)
  case Nil
  then show ?case by simp
next
  case (Cons x xs y ys)
  then show ?case
    by (auto simp add: same_attack_def)
qed

text \<open>
  C5. On a fresh seed and executor, for every initial strength and population size, the
  suite run after strengthening every member of \<^verbatim>\<open>DefenseType\<close> by 5 blocks at least as
  many attacks as the suite run before: it blocks every active pattern.
\<close>

theorem strengthening_monotone:
  "fst (strengthening_effect s n) \<le> snd (strengthening_effect s n) \<and>
   snd (strengthening_effect s n) = int (length (initialize_patterns n))"
proof -
  let ?sd = "new_EvolvableSeed ''TestSeed'' s"
  let ?ps = "initialize_patterns n"
  obtain es1 n1 ps1 sd1 where r1: "execute_patterns 0 ?sd ?ps = (es1, n1, ps1, sd1)"
    by (cases "execute_patterns 0 ?sd ?ps")
  obtain es2 n2 ps2 sd2 where
    r2: "execute_patterns 0 (strengthen_every sd1 5) ps1 = (es2, n2, ps2, sd2)"
    by (cases "execute_patterns 0 (strengthen_every sd1 5) ps1")
  from execute_patterns_counts [OF r1] have "n1 \<le> int (length ?ps)"
    by (metis length_filter_le of_nat_le_iff)
  moreover from execute_patterns_preserves [OF r1 fresh_targets]
  have t1: "targets_within (\<lambda>s. True) sd1" and same: "list_all2 same_attack ps1 ?ps"
    by simp_all
  from same have len: "length ps1 = length ?ps"
    by (rule list_all2_lengthD)
  from same_attack_catalog [OF same initialize_patterns_catalog]
  have cat: "list_all (\<lambda>p. \<exists>q \<in> set pattern_catalog. same_attack p q) ps1" .
  from execute_patterns_all_blocked [OF r2 strengthen_every_ready [OF t1] cat] len
  have "n2 = int (length ?ps)" by simp
  moreover have "strengthening_effect s n = (n1, n2)"
    using r1 r2
    by (simp add: strengthening_effect_def execute_suite_def new_EvolutionOrchestrator_def Let_def)
  ultimately show ?thesis by simp
qed


theorem strengthening_monotone_witness:
  "fst (strengthening_effect 1 6) \<le> snd (strengthening_effect 1 6) \<and>
   snd (strengthening_effect 1 6) = 6"
proof -
  have "int (length (initialize_patterns 6)) = 6"
    by (simp add: initialize_patterns_def pattern_catalog_def)
  with strengthening_monotone [of 1 6] show ?thesis by simp
qed

end
